theory Spec2Isabelle
  imports Complex_Main "HOL-Library.AList" "HOL-Library.Sublist"
begin

section \<open>JavaScript values and built-ins used by the data-source form\<close>

text \<open>
  The form component keeps its state in dynamically typed objects. A JavaScript value is
  modelled by \<open>jsval\<close>. Numbers are integers or \<open>NaN\<close> (what number inputs and
  \<open>parseInt\<close> produce). A JavaScript number is a double, which is exact for integers of
  magnitude below \<open>2^53\<close> only; digits are therefore read (\<open>parseInt\<close>) and printed
  (\<open>join\<close>) within that range only, and outside it both are outside the model.
  Strings are sequences of code units below 256.
  Two kinds of string are kept symbolic: \<open>JText v\<close> is the text \<open>JSON.stringify\<close> yields
  for the value \<open>v\<close>, and \<open>JBlob t\<close> is the blob \<open>encrypted\<close> yields for the text
  \<open>t\<close>. Objects are association lists in insertion order.
\<close>

datatype jsval =
    JUndefined
  | JNull
  | JBool bool
  | JNum int
  | JNaN
  | JStr string
  | JText jsval
  | JBlob jsval
  | JArr "jsval list"
  | JObj "(string \<times> jsval) list"

type_synonym obj = "(string \<times> jsval) list"

datatype error = TypeError | SyntaxError | OutsideModel

text \<open>Property read \<open>o.k\<close> (an absent property reads \<open>undefined\<close>), write and \<open>delete\<close>.\<close>

definition get_field :: "obj \<Rightarrow> string \<Rightarrow> jsval" where
  "get_field ob k = (case map_of ob k of None \<Rightarrow> JUndefined | Some v \<Rightarrow> v)"

definition set_field :: "string \<Rightarrow> jsval \<Rightarrow> obj \<Rightarrow> obj" where
  "set_field k v ob = AList.update k v ob"

definition delete_field :: "string \<Rightarrow> obj \<Rightarrow> obj" where
  "delete_field k ob = AList.delete k ob"

definition has_field :: "obj \<Rightarrow> string \<Rightarrow> bool" where
  "has_field ob k = (k \<in> set (map fst ob))"

text \<open>Truthiness, as \<open>if (v)\<close>, \<open>v || d\<close> and \<open>v && w\<close> test it.\<close>

fun truthy :: "jsval \<Rightarrow> bool" where
  "truthy JUndefined = False"
| "truthy JNull = False"
| "truthy (JBool b) = b"
| "truthy (JNum n) = (n \<noteq> 0)"
| "truthy JNaN = False"
| "truthy (JStr s) = (s \<noteq> [])"
| "truthy (JText v) = True"
| "truthy (JBlob t) = True"
| "truthy (JArr xs) = True"
| "truthy (JObj ms) = True"

definition js_or :: "jsval \<Rightarrow> jsval \<Rightarrow> jsval" where
  "js_or v d = (if truthy v then v else d)"

text \<open>
  \<open>String.prototype.toLowerCase\<close> on code units below 256: the letters A to Z and the
  Latin-1 capitals (U+00C0 to U+00DE without the multiplication sign U+00D7) move up by 32.
\<close>

definition lower_char :: "char \<Rightarrow> char" where
  "lower_char c =
     (let n = (of_char c :: nat)
      in if (65 \<le> n \<and> n \<le> 90) \<or> (192 \<le> n \<and> n \<le> 222 \<and> n \<noteq> 215)
         then char_of (n + 32) else c)"

definition toLowerCase :: "string \<Rightarrow> string" where
  "toLowerCase s = map lower_char s"

text \<open>\<open>s.includes(t)\<close>: \<open>t\<close> occurs in \<open>s\<close> as a contiguous substring.\<close>

fun includes_js :: "string \<Rightarrow> string \<Rightarrow> bool" where
  "includes_js [] t = (t = [])"
| "includes_js (c # s) t = (prefix t (c # s) \<or> includes_js s t)"

text \<open>
  \<open>[...new Set(xs)]\<close>: the elements of \<open>xs\<close> in order of first occurrence, each once
  (a \<open>Set\<close> keeps insertion order and ignores a value it already holds).
\<close>

definition Set_add :: "'a \<Rightarrow> 'a list \<Rightarrow> 'a list" where
  "Set_add x acc = (if x \<in> set acc then acc else acc @ [x])"

definition new_Set :: "'a list \<Rightarrow> 'a list" where
  "new_Set xs = fold Set_add xs []"


section \<open>Component state\<close>

record table =
  tableName :: string
  tableComment :: string

record rawFile =
  file_name :: string
  size_bytes :: nat

text \<open>
  What a handler does besides updating the refs: events emitted to the parent, messages shown
  to the user and requests sent to the server. Message texts are given by their translation
  key or in English.
\<close>

datatype effect =
    ClearValidate
  | Emit_changeActiveStep int
  | Emit_refresh
  | Emit_close
  | Message string string
  | Console_error string
  | Confirm_excessive nat
  | Req_upload rawFile
  | Req_check obj
  | Req_getTablesByConf obj
  | Req_getSchema obj
  | Req_testApiExcel obj
  | Req_fetchExcelFromApi obj
  | Req_concatenateExcels "rawFile list" string string
  | Req_add obj
  | Req_update obj
  | Req_chooseTables jsval "jsval list"
  | Req_tableList jsval

record state =
  form :: obj
  dialogVisible :: bool
  dialogTitle :: string
  isCreate :: bool
  isEditTable :: bool
  checkList :: "string list"
  tableList :: "table list"
  excelUploadSuccess :: bool
  tableListLoading :: bool
  checkLoading :: bool
  saveLoading :: bool
  uploadLoading :: bool
  schemaList :: "string list"
  keywords_v :: string
  checkAll :: bool
  isIndeterminate :: bool
  checkTableList :: "string list"
  fileSize :: string
  multipleFiles :: "rawFile list"
  activeStep :: int
  concatenateMode :: bool


section \<open>Selection reconciler\<close>

text \<open>The computed \<open>tableListWithSearch\<close>: the rows the table picker shows.\<close>

definition tableListWithSearch :: "state \<Rightarrow> table list" where
  "tableListWithSearch st =
     (if keywords_v st = [] then tableList st
      else filter (\<lambda>ele. includes_js (toLowerCase (tableName ele)) (toLowerCase (keywords_v st)))
             (tableList st))"

definition tableNameArr :: "state \<Rightarrow> string list" where
  "tableNameArr st = map tableName (tableListWithSearch st)"

text \<open>The body of \<open>watch(keywords, ...)\<close>, run after \<open>keywords\<close> has changed.\<close>

definition watch_keywords :: "state \<Rightarrow> state" where
  "watch_keywords st =
     (let names = tableNameArr st;
          cl = filter (\<lambda>ele. ele \<in> set names) (checkTableList st);
          checkedCount = length cl
      in st\<lparr>checkList := cl,
             checkAll := (checkedCount = length (tableListWithSearch st)),
             isIndeterminate :=
               (checkedCount > 0 \<and> checkedCount < length (tableListWithSearch st))\<rparr>)"

text \<open>
  Typing in the search box assigns \<open>keywords\<close> (\<open>v-model\<close>); the watcher runs only when the
  value has changed.
\<close>

definition setFilter :: "string \<Rightarrow> state \<Rightarrow> state" where
  "setFilter kw st =
     (if kw = keywords_v st then st else watch_keywords (st\<lparr>keywords_v := kw\<rparr>))"

definition handleCheckAllChange :: "bool \<Rightarrow> state \<Rightarrow> state" where
  "handleCheckAllChange val st =
     (let names = tableNameArr st
      in st\<lparr>checkList := (if val then new_Set (names @ checkList st) else []),
             isIndeterminate := False,
             checkTableList :=
               (if val then new_Set (names @ checkTableList st)
                else filter (\<lambda>ele. ele \<notin> set names) (checkTableList st))\<rparr>)"

definition handleCheckedTablesChange :: "string list \<Rightarrow> state \<Rightarrow> state" where
  "handleCheckedTablesChange val st =
     (let checkedCount = length val;
          names = tableNameArr st
      in st\<lparr>checkAll := (checkedCount = length (tableListWithSearch st)),
             isIndeterminate :=
               (checkedCount > 0 \<and> checkedCount < length (tableListWithSearch st)),
             checkTableList :=
               new_Set (filter (\<lambda>ele. ele \<notin> set names) (checkTableList st) @ val)\<rparr>)"

text \<open>
  The two checkbox events as the template wires them: \<open>v-model\<close> stores the new value, then
  \<open>@change\<close> calls the handler with it.
\<close>

definition toggleAll :: "bool \<Rightarrow> state \<Rightarrow> state" where
  "toggleAll val st = handleCheckAllChange val (st\<lparr>checkAll := val\<rparr>)"

definition toggleMany :: "string list \<Rightarrow> state \<Rightarrow> state" where
  "toggleMany val st = handleCheckedTablesChange val (st\<lparr>checkList := val\<rparr>)"

datatype sel_op = SetFilter string | ToggleAll bool | ToggleMany "string list"

fun sel_step :: "sel_op \<Rightarrow> state \<Rightarrow> state" where
  "sel_step (SetFilter kw) st = setFilter kw st"
| "sel_step (ToggleAll val) st = toggleAll val st"
| "sel_step (ToggleMany val) st = toggleMany val st"

fun sel_run :: "sel_op list \<Rightarrow> state \<Rightarrow> state" where
  "sel_run [] st = st"
| "sel_run (x # xs) st = sel_run xs (sel_step x st)"

text \<open>
  \<open>drawn_from_visible ops st\<close>: every checkbox-group value in the run is a list of names of
  rows visible at that moment. \<open>hidden_at_toggles n ops st\<close>: the name \<open>n\<close> is outside the
  visible rows at every toggle of the run.
\<close>

fun drawn_from_visible :: "sel_op list \<Rightarrow> state \<Rightarrow> bool" where
  "drawn_from_visible [] st = True"
| "drawn_from_visible (ToggleMany val # xs) st =
     (list_all (\<lambda>v. v \<in> set (tableNameArr st)) val
      \<and> drawn_from_visible xs (sel_step (ToggleMany val) st))"
| "drawn_from_visible (x # xs) st = drawn_from_visible xs (sel_step x st)"

fun hidden_at_toggles :: "string \<Rightarrow> sel_op list \<Rightarrow> state \<Rightarrow> bool" where
  "hidden_at_toggles n [] st = True"
| "hidden_at_toggles n (SetFilter kw # xs) st = hidden_at_toggles n xs (setFilter kw st)"
| "hidden_at_toggles n (x # xs) st =
     (n \<notin> set (tableNameArr st) \<and> hidden_at_toggles n xs (sel_step x st))"


section \<open>Local upload\<close>

text \<open>
  \<open>beforeUpload\<close> is the upload component's \<open>before-upload\<close> hook. It records the file size
  for display (\<open>setSize\<close> formats it; it comes from the utilities and is a parameter here)
  and compares \<open>rawFile.size / 1024 / 1024\<close> with 50. The size is a whole number of bytes and
  the divisions by 1024 are exact in binary floating point, so the quotient is taken in the
  reals. The result is the hook's return value, with the messages shown and the new refs.
\<close>

definition setFile :: "(nat \<Rightarrow> string) \<Rightarrow> rawFile \<Rightarrow> state \<Rightarrow> state" where
  "setFile setSize file st = st\<lparr>fileSize := setSize (size_bytes file)\<rparr>"

definition beforeUpload :: "(nat \<Rightarrow> string) \<Rightarrow> rawFile \<Rightarrow> state \<Rightarrow> bool \<times> effect list \<times> state" where
  "beforeUpload setSize rawFile st =
     (let st1 = setFile setSize rawFile st
      in if real (size_bytes rawFile) / 1024 / 1024 > 50
         then (False, [Message ''error'' ''common.not_exceed_50mb''], st1)
         else (True, [], st1\<lparr>uploadLoading := True\<rparr>))"

text \<open>
  Choosing a file in the upload component: the component calls the hook and posts the file
  to the upload URL only when the hook has not returned \<open>false\<close>.
\<close>

definition el_upload :: "(nat \<Rightarrow> string) \<Rightarrow> rawFile \<Rightarrow> state \<Rightarrow> effect list \<times> state" where
  "el_upload setSize rawFile st =
     (case beforeUpload setSize rawFile st of
        (ok, effs, st') \<Rightarrow> (if ok then effs @ [Req_upload rawFile] else effs, st'))"


section \<open>JSON, encryption and string built-ins\<close>

text \<open>
  \<open>clone v\<close> is what \<open>JSON.parse(JSON.stringify(v))\<close> yields: members whose value is
  \<open>undefined\<close> are dropped from objects, \<open>undefined\<close> and \<open>NaN\<close> inside arrays come back as
  \<open>null\<close>, strings, numbers, booleans and \<open>null\<close> come back unchanged.
\<close>

fun clone :: "jsval \<Rightarrow> jsval"
  and clone_elems :: "jsval list \<Rightarrow> jsval list"
  and clone_members :: "obj \<Rightarrow> obj" where
  "clone JUndefined = JNull"
| "clone JNaN = JNull"
| "clone (JArr xs) = JArr (clone_elems xs)"
| "clone (JObj ms) = JObj (clone_members ms)"
| "clone v = v"
| "clone_elems [] = []"
| "clone_elems (x # xs) = clone x # clone_elems xs"
| "clone_members [] = []"
| "clone_members ((k, v) # ms) =
     (if v = JUndefined then clone_members ms else (k, clone v) # clone_members ms)"

text \<open>
  \<open>JSON.stringify\<close> yields the text of the value (\<open>undefined\<close> for \<open>undefined\<close>);
  \<open>JSON.parse\<close> reads a text back and converts a number, a boolean or \<open>null\<close> to its own
  text first. A string that is a JSON text is represented by \<open>JText\<close>, so any other argument
  is not a JSON text and raises \<open>SyntaxError\<close>.
\<close>

definition JSON_stringify :: "jsval \<Rightarrow> jsval" where
  "JSON_stringify v = (if v = JUndefined then JUndefined else JText (clone v))"

fun JSON_parse :: "jsval \<Rightarrow> error + jsval" where
  "JSON_parse (JText v) = Inr v"
| "JSON_parse JNull = Inr JNull"
| "JSON_parse (JBool b) = Inr (JBool b)"
| "JSON_parse (JNum n) = Inr (JNum n)"
| "JSON_parse v = Inl SyntaxError"

text \<open>
  Modelled from the spec: the helpers \<open>encrypted\<close> and \<open>decrypted\<close> of \<open>./js/aes\<close> are not
  among the sources. The specification treats them as an opaque pair with
  \<open>decrypt(encrypt(x)) = x\<close>; the blob of a text is the symbolic value \<open>JBlob\<close>, a non-empty
  string, and decrypting anything that is not a blob gives the empty string.
\<close>

definition encrypted :: "jsval \<Rightarrow> jsval" where
  "encrypted t = JBlob t"

fun decrypted :: "jsval \<Rightarrow> jsval" where
  "decrypted (JBlob t) = t"
| "decrypted v = JStr []"

text \<open>Property read on an arbitrary value: \<open>null\<close> and \<open>undefined\<close> have no properties.\<close>

fun get_prop :: "jsval \<Rightarrow> string \<Rightarrow> error + jsval" where
  "get_prop (JObj ms) k = Inr (get_field ms k)"
| "get_prop JNull k = Inl TypeError"
| "get_prop JUndefined k = Inl TypeError"
| "get_prop v k = Inr JUndefined"

text \<open>
  \<open>trim\<close>, \<open>split(',')\<close>, \<open>parseInt\<close> with no radix (leading white space, a sign, a
  \<open>0x\<close> prefix for base 16, then the longest run of digits; \<open>NaN\<close> when there is none) and
  \<open>join(',')\<close> (\<open>null\<close> and \<open>undefined\<close> join as the empty string). These work on literal
  strings; the characters of a symbolic text are not known, so joining one is outside the
  model (\<open>None\<close>).

  \<open>parseInt\<close> returns a double: a digit string whose value is \<open>2^53\<close> or more is rounded
  (\<open>9007199254740993\<close> reads as \<open>9007199254740992\<close>), and a number of that magnitude is
  printed with the shortest digits that identify the double, not with its exact digits.
  Neither is modelled: \<open>parseInt\<close> is \<open>None\<close> for such a digit string and \<open>join\<close> is
  \<open>None\<close> for such a number. Below \<open>2^53\<close> reading and printing are exact.
\<close>

definition safe_integer :: "int \<Rightarrow> bool" where
  "safe_integer n = (\<bar>n\<bar> < 2 ^ 53)"

definition is_space :: "char \<Rightarrow> bool" where
  "is_space c = (of_char c \<in> {9, 10, 11, 12, 13, 32, 160 :: nat})"

definition trim :: "string \<Rightarrow> string" where
  "trim s = rev (dropWhile is_space (rev (dropWhile is_space s)))"

fun split_on :: "char \<Rightarrow> string \<Rightarrow> string list" where
  "split_on sep [] = [[]]"
| "split_on sep (c # cs) =
     (if c = sep then [] # split_on sep cs
      else (case split_on sep cs of [] \<Rightarrow> [[c]] | piece # pieces \<Rightarrow> (c # piece) # pieces))"

definition digit_value :: "char \<Rightarrow> nat option" where
  "digit_value c =
     (let n = (of_char c :: nat)
      in if 48 \<le> n \<and> n \<le> 57 then Some (n - 48)
         else if 97 \<le> n \<and> n \<le> 102 then Some (n - 87)
         else if 65 \<le> n \<and> n \<le> 70 then Some (n - 55)
         else None)"

definition is_digit :: "nat \<Rightarrow> char \<Rightarrow> bool" where
  "is_digit radix c = (case digit_value c of None \<Rightarrow> False | Some d \<Rightarrow> d < radix)"

definition digits_value :: "nat \<Rightarrow> string \<Rightarrow> nat" where
  "digits_value radix ds = foldl (\<lambda>acc c. acc * radix + (case digit_value c of None \<Rightarrow> 0 | Some d \<Rightarrow> d)) 0 ds"

definition parseInt :: "string \<Rightarrow> jsval option" where
  "parseInt str =
     (let s1 = dropWhile is_space str;
          neg = (case s1 of c # r \<Rightarrow> c = CHR ''-'' | [] \<Rightarrow> False);
          s2 = (case s1 of c # r \<Rightarrow> (if c = CHR ''-'' \<or> c = CHR ''+'' then r else s1) | [] \<Rightarrow> s1);
          hex = (take 2 s2 = ''0x'' \<or> take 2 s2 = ''0X'');
          radix = (if hex then 16 else 10);
          s3 = (if hex then drop 2 s2 else s2);
          ds = takeWhile (is_digit radix) s3
      in if ds = [] then Some JNaN
         else if safe_integer (int (digits_value radix ds))
         then Some (JNum ((if neg then - 1 else 1) * int (digits_value radix ds)))
         else None)"

function show_nat :: "nat \<Rightarrow> string" where
  "show_nat n =
     (if n < 10 then [char_of (48 + n)] else show_nat (n div 10) @ [char_of (48 + n mod 10)])"
  by pat_completeness auto
termination
  by (relation "measure id") auto

definition show_int :: "int \<Rightarrow> string" where
  "show_int i = (if i < 0 then CHR ''-'' # show_nat (nat (- i)) else show_nat (nat i))"

fun join_elem :: "jsval \<Rightarrow> string option"
  and join_elems :: "jsval list \<Rightarrow> string option" where
  "join_elem JUndefined = Some []"
| "join_elem JNull = Some []"
| "join_elem (JBool b) = Some (if b then ''true'' else ''false'')"
| "join_elem (JNum n) = (if safe_integer n then Some (show_int n) else None)"
| "join_elem JNaN = Some ''NaN''"
| "join_elem (JStr s) = Some s"
| "join_elem (JText v) = None"
| "join_elem (JBlob t) = None"
| "join_elem (JArr xs) = join_elems xs"
| "join_elem (JObj ms) = Some ''[object Object]''"
| "join_elems [] = Some []"
| "join_elems [x] = join_elem x"
| "join_elems (x # y # ys) =
     (case join_elem x of None \<Rightarrow> None
      | Some a \<Rightarrow> (case join_elems (y # ys) of None \<Rightarrow> None | Some b \<Rightarrow> Some (a @ '','' @ b)))"


section \<open>Configuration builder\<close>

text \<open>
  The form object as the component creates it (\<open>activeType\<close> is the prop of that name), and
  the object \<open>initForm\<close> installs when it is called without a record.
\<close>

definition form_init :: "string \<Rightarrow> obj" where
  "form_init activeType =
     [(''name'', JStr ''''), (''description'', JStr ''''), (''type'', JStr activeType),
      (''configuration'', JStr ''''), (''driver'', JStr ''''), (''host'', JStr ''''),
      (''port'', JNum 0), (''username'', JStr ''''), (''password'', JStr ''''),
      (''database'', JStr ''''), (''extraJdbc'', JStr ''''), (''dbSchema'', JStr ''''),
      (''filename'', JStr ''''), (''sheets'', JArr []), (''mode'', JStr ''service_name''),
      (''timeout'', JNum 30), (''originType'', JStr ''local''), (''endpoint'', JStr ''''),
      (''method'', JStr ''POST''), (''date_m'', JStr ''''), (''p_date_m'', JStr ''''),
      (''headerKey'', JStr ''''), (''headerValue'', JStr ''''), (''cookieKey'', JStr ''''),
      (''cookieValue'', JStr ''''), (''paramKey'', JStr ''''), (''paramValue'', JStr ''''),
      (''certificate'', JStr ''''), (''certificateList'', JArr [])]"

definition form_fresh :: obj where
  "form_fresh =
     [(''name'', JStr ''''), (''description'', JStr ''''), (''type'', JStr ''mysql''),
      (''configuration'', JStr ''''), (''driver'', JStr ''''), (''host'', JStr ''''),
      (''port'', JNum 0), (''username'', JStr ''''), (''password'', JStr ''''),
      (''database'', JStr ''''), (''extraJdbc'', JStr ''''), (''dbSchema'', JStr ''''),
      (''filename'', JStr ''''), (''sheets'', JArr []), (''mode'', JStr ''service_name''),
      (''timeout'', JNum 30), (''originType'', JStr ''local'')]"

definition delete_fields :: "string list \<Rightarrow> obj \<Rightarrow> obj" where
  "delete_fields ks ob = fold delete_field ks ob"

text \<open>One entry of the certificate list, pushed when key and value are both truthy.\<close>

definition certificate_entry :: "string \<Rightarrow> jsval \<Rightarrow> jsval \<Rightarrow> jsval list" where
  "certificate_entry target k v =
     (if truthy k \<and> truthy v
      then [JObj [(''target'', JStr target), (''key'', k), (''value'', v)]] else [])"

text \<open>
  \<open>successStatusCodes.split(',').map(code => parseInt(code.trim()))\<close>. The method exists on
  strings only; the characters of a symbolic text are not known, and a code of \<open>2^53\<close> or
  more is outside the range in which \<open>parseInt\<close> is modelled.
\<close>

fun split_status_codes :: "jsval \<Rightarrow> error + jsval list" where
  "split_status_codes (JStr s) =
     (case those (map (\<lambda>code. parseInt (trim code)) (split_on CHR '','' s)) of
        None \<Rightarrow> Inl OutsideModel
      | Some codes \<Rightarrow> Inr codes)"
| "split_status_codes (JText v) = Inl OutsideModel"
| "split_status_codes (JBlob t) = Inl OutsideModel"
| "split_status_codes v = Inl TypeError"

definition api_deleted :: "string list" where
  "api_deleted =
     [''endpoint'', ''headerKey'', ''headerValue'', ''cookieKey'', ''cookieValue'',
      ''paramKey'', ''paramValue'', ''timeout'', ''originType'',
      ''driver'', ''host'', ''port'', ''username'', ''password'', ''database'', ''extraJdbc'',
      ''dbSchema'', ''filename'', ''sheets'', ''mode'']"

definition relational_deleted :: "string list" where
  "relational_deleted =
     [''driver'', ''host'', ''port'', ''username'', ''password'', ''database'', ''extraJdbc'',
      ''dbSchema'', ''filename'', ''sheets'', ''mode'', ''timeout'', ''originType'']"

definition api_configuration :: "obj \<Rightarrow> jsval list \<Rightarrow> jsval list \<Rightarrow> obj" where
  "api_configuration f successStatusCodes certificateList =
     [(''endpoint'', get_field f ''endpoint''),
      (''method'', js_or (get_field f ''method'') (JStr ''POST'')),
      (''requestBody'', js_or (get_field f ''requestBody'') (JStr '''')),
      (''successStatusCodes'', JArr successStatusCodes),
      (''certificateList'', JArr certificateList),
      (''timeout'', js_or (get_field f ''timeout'') (JNum 30)),
      (''originType'', JStr ''api'')]"

definition relational_configuration :: "obj \<Rightarrow> obj" where
  "relational_configuration f =
     [(''host'', get_field f ''host''),
      (''port'', get_field f ''port''),
      (''username'', get_field f ''username''),
      (''password'', get_field f ''password''),
      (''database'', get_field f ''database''),
      (''extraJdbc'', get_field f ''extraJdbc''),
      (''dbSchema'', get_field f ''dbSchema''),
      (''filename'', get_field f ''filename''),
      (''sheets'', get_field f ''sheets''),
      (''mode'', get_field f ''mode''),
      (''timeout'', get_field f ''timeout''),
      (''originType'', js_or (get_field f ''originType'') (JStr ''local''))]"

text \<open>\<open>JSON.parse(JSON.stringify(form.value))\<close> followed by the \<open>delete\<close> statements.\<close>

definition copy_without :: "string list \<Rightarrow> obj \<Rightarrow> error + obj" where
  "copy_without ks f =
     (case JSON_parse (JSON_stringify (JObj f)) of
        Inl e \<Rightarrow> Inl e
      | Inr (JObj ob) \<Rightarrow> Inr (delete_fields ks ob)
      | Inr v \<Rightarrow> Inr [])"

text \<open>
  The two values the API branch computes first: the certificate list (header, cookie, URL
  parameter, in this order) and the success status codes (200 and 201 unless the form has
  a truthy \<open>successStatusCodes\<close>).
\<close>

definition certificateList_of :: "obj \<Rightarrow> jsval list" where
  "certificateList_of f =
     certificate_entry ''header'' (get_field f ''headerKey'') (get_field f ''headerValue'')
     @ certificate_entry ''cookie'' (get_field f ''cookieKey'') (get_field f ''cookieValue'')
     @ certificate_entry ''param'' (get_field f ''paramKey'') (get_field f ''paramValue'')"

definition successStatusCodes_of :: "obj \<Rightarrow> error + jsval list" where
  "successStatusCodes_of f =
     (if truthy (get_field f ''successStatusCodes'')
      then split_status_codes (get_field f ''successStatusCodes'')
      else Inr [JNum 200, JNum 201])"

text \<open>
  \<open>buildConf\<close> takes the form object and returns the form object as it leaves it together
  with the object it returns, or the error it raises.
\<close>

definition buildConf :: "obj \<Rightarrow> error + obj \<times> obj" where
  "buildConf f =
     (if get_field f ''type'' = JStr ''api'' then
        (let certificateList = certificateList_of f
         in case successStatusCodes_of f of
              Inl e \<Rightarrow> Inl e
            | Inr successStatusCodes \<Rightarrow>
               (let f1 = set_field ''configuration''
                           (encrypted (JSON_stringify
                              (JObj (api_configuration f successStatusCodes certificateList)))) f;
                    f2 = set_field ''certificate'' (JSON_stringify (JArr certificateList)) f1
                in case copy_without api_deleted f2 of
                     Inl e \<Rightarrow> Inl e
                   | Inr ob \<Rightarrow> Inr (f2, ob)))
      else
        (let f1 = set_field ''configuration''
                    (encrypted (JSON_stringify (JObj (relational_configuration f)))) f
         in case copy_without relational_deleted f1 of
              Inl e \<Rightarrow> Inl e
            | Inr ob \<Rightarrow> Inr (f1, ob)))"

text \<open>
  \<open>initForm\<close>. A thrown error is the result \<open>Inl\<close>. The record to load is \<open>Some item\<close>;
  \<open>None\<close> stands for a call without a record.
\<close>

definition has_props :: "jsval \<Rightarrow> bool" where
  "has_props v = (v \<noteq> JNull \<and> v \<noteq> JUndefined)"

fun member :: "jsval \<Rightarrow> string \<Rightarrow> jsval" where
  "member (JObj ms) k = get_field ms k"
| "member v k = JUndefined"

text \<open>The loop over the parsed certificate list; the flag says that an entry raised.\<close>

fun load_certs :: "jsval list \<Rightarrow> obj \<Rightarrow> obj \<times> bool" where
  "load_certs [] f = (f, False)"
| "load_certs (cert # certs) f =
     (if \<not> has_props cert then (f, True)
      else if member cert ''target'' = JStr ''header''
        then load_certs certs
               (set_field ''headerValue'' (member cert ''value'')
                 (set_field ''headerKey'' (member cert ''key'') f))
      else if member cert ''target'' = JStr ''cookie''
        then load_certs certs
               (set_field ''cookieValue'' (member cert ''value'')
                 (set_field ''cookieKey'' (member cert ''key'') f))
      else if member cert ''target'' = JStr ''param''
        then load_certs certs
               (set_field ''paramValue'' (member cert ''value'')
                 (set_field ''paramKey'' (member cert ''key'') f))
      else load_certs certs f)"

text \<open>
  The \<open>try\<close> block: parse the side-channel string and run the loop. Iterating a string
  visits its characters, none of which has a \<open>target\<close>; anything else that is not an array
  cannot be iterated. Every error is caught and logged.
\<close>

definition load_certificate :: "jsval \<Rightarrow> obj \<Rightarrow> obj \<times> effect list" where
  "load_certificate certificate f =
     (case JSON_parse certificate of
        Inl e \<Rightarrow> (f, [Console_error ''certificate''])
      | Inr (JArr certs) \<Rightarrow>
          (case load_certs certs f of
             (f', raised) \<Rightarrow> (f', if raised then [Console_error ''certificate''] else []))
      | Inr (JStr s) \<Rightarrow> (f, [])
      | Inr (JText v) \<Rightarrow> (f, [])
      | Inr (JBlob t) \<Rightarrow> (f, [])
      | Inr v \<Rightarrow> (f, [Console_error ''certificate'']))"

definition load_api :: "jsval \<Rightarrow> obj \<Rightarrow> obj \<Rightarrow> error + obj \<times> effect list" where
  "load_api configuration item f =
     (if \<not> has_props configuration then Inl TypeError
      else
        (let f1 = set_field ''originType'' (JStr ''api'') f;
             f2 = set_field ''endpoint'' (member configuration ''endpoint'') f1;
             f3 = set_field ''method'' (js_or (member configuration ''method'') (JStr ''POST'')) f2;
             f4 = set_field ''requestBody''
                    (js_or (member configuration ''requestBody'') (JStr '''')) f3;
             f5 = set_field ''timeout''
                    (if truthy (member configuration ''timeout'')
                     then member configuration ''timeout'' else JNum 30) f4
         in case (case member configuration ''successStatusCodes'' of
                    JArr codes \<Rightarrow>
                      (case join_elems codes of
                         None \<Rightarrow> Inl OutsideModel | Some s \<Rightarrow> Inr (JStr s))
                  | v \<Rightarrow> Inr (JStr ''200,201'')) of
              Inl e \<Rightarrow> Inl e
            | Inr codes \<Rightarrow>
               (let f6 = set_field ''successStatusCodes'' codes f5;
                    f7 = set_field ''certificateList''
                           (js_or (member configuration ''certificateList'') (JArr [])) f6
                in if truthy (get_field item ''certificate'')
                   then Inr (load_certificate (get_field item ''certificate'') f7)
                   else Inr (f7, []))))"

definition load_relational :: "jsval \<Rightarrow> obj \<Rightarrow> error + obj" where
  "load_relational configuration f =
     (if \<not> has_props configuration then Inl TypeError
      else Inr
        (set_field ''originType'' (js_or (member configuration ''originType'') (JStr ''local''))
        (set_field ''timeout''
           (if truthy (member configuration ''timeout'')
            then member configuration ''timeout'' else JNum 30)
        (set_field ''mode'' (member configuration ''mode'')
        (set_field ''sheets'' (member configuration ''sheets'')
        (set_field ''filename'' (member configuration ''filename'')
        (set_field ''dbSchema'' (member configuration ''dbSchema'')
        (set_field ''extraJdbc'' (member configuration ''extraJdbc'')
        (set_field ''database'' (member configuration ''database'')
        (set_field ''password'' (member configuration ''password'')
        (set_field ''username'' (member configuration ''username'')
        (set_field ''port'' (member configuration ''port'')
        (set_field ''host'' (member configuration ''host'') f)))))))))))))"

definition load_configuration :: "obj \<Rightarrow> obj \<Rightarrow> error + obj \<times> effect list" where
  "load_configuration item f =
     (if truthy (get_field item ''configuration'') then
        (case JSON_parse (decrypted (get_field item ''configuration'')) of
           Inl e \<Rightarrow> Inl e
         | Inr configuration \<Rightarrow>
            (if get_field item ''type'' = JStr ''api'' then load_api configuration item f
             else (case load_relational configuration f of
                     Inl e \<Rightarrow> Inl e | Inr f' \<Rightarrow> Inr (f', []))))
      else Inr (f, []))"

definition initForm :: "obj option \<Rightarrow> bool \<Rightarrow> state \<Rightarrow> error + effect list \<times> state" where
  "initForm item editTable st =
     (let changed = (keywords_v st \<noteq> []);
          st0 = st\<lparr>isEditTable := False, keywords_v := []\<rparr>;
          rerun = (\<lambda>s. if changed then watch_keywords s else s)
      in case item of
           Some item \<Rightarrow>
             (let f0 = set_field ''configuration'' (get_field item ''configuration'')
                      (set_field ''type'' (get_field item ''type'')
                      (set_field ''description'' (get_field item ''description'')
                      (set_field ''name'' (get_field item ''name'')
                      (set_field ''id'' (get_field item ''id'') (form st0)))))
              in case load_configuration item f0 of
                   Inl e \<Rightarrow> Inl e
                 | Inr (f1, logged) \<Rightarrow>
                     Inr ([ClearValidate] @ logged
                            @ (if editTable then [Req_tableList (get_field item ''id'')] else []),
                          rerun (st0\<lparr>dialogTitle :=
                                       (if editTable then ''ds.form.choose_tables''
                                        else ''ds.form.title.edit''),
                                     isCreate := False,
                                     form := f1,
                                     dialogVisible := True\<rparr>)))
         | None \<Rightarrow>
             Inr ([ClearValidate],
                  rerun (st0\<lparr>dialogTitle := ''ds.form.title.add'',
                             isCreate := True,
                             isEditTable := False,
                             checkList := [],
                             tableList := [],
                             form := form_fresh,
                             dialogVisible := True\<rparr>)))"

text \<open>
  \<open>check\<close> and \<open>getSchema\<close>: the synchronous part, up to the request; \<open>api_request\<close> is the
  parameter object of the API test and of the API fetch.
\<close>

definition api_request :: "obj \<Rightarrow> obj" where
  "api_request f =
     [(''endpoint'', get_field f ''endpoint''),
      (''method'', js_or (get_field f ''method'') (JStr ''GET'')),
      (''date_m'', get_field f ''date_m''),
      (''p_date_m'', get_field f ''p_date_m''),
      (''headerKey'', get_field f ''headerKey''),
      (''headerValue'', get_field f ''headerValue''),
      (''cookieKey'', get_field f ''cookieKey''),
      (''cookieValue'', get_field f ''cookieValue''),
      (''paramKey'', get_field f ''paramKey''),
      (''paramValue'', get_field f ''paramValue''),
      (''timeout'', js_or (get_field f ''timeout'') (JNum 30)),
      (''separator'', JStr ''_'')]"

definition check :: "state \<Rightarrow> error + effect list \<times> state" where
  "check st =
     (if get_field (form st) ''type'' = JStr ''api''
      then Inr ([Req_testApiExcel (api_request (form st))], st)
      else (case buildConf (form st) of
              Inl e \<Rightarrow> Inl e
            | Inr (f', requestObj) \<Rightarrow> Inr ([Req_check requestObj], st\<lparr>form := f'\<rparr>)))"

definition getSchema :: "state \<Rightarrow> error + effect list \<times> state" where
  "getSchema st =
     (case buildConf (form st) of
        Inl e \<Rightarrow> Inl e
      | Inr (f', requestObj) \<Rightarrow>
          Inr ([Req_getSchema requestObj], st\<lparr>schemaList := [], form := f'\<rparr>))"


section \<open>Wizard controller\<close>

text \<open>
  What an ingestion request answers: a file name and the sheets found. \<open>sheet_json\<close> is a
  sheet as a value of the form object, \<open>table_json\<close> a selected table as the server takes
  it.
\<close>

record response =
  r_filename :: string
  r_sheets :: "table list"

definition sheet_json :: "table \<Rightarrow> jsval" where
  "sheet_json ele =
     JObj [(''tableName'', JStr (tableName ele)), (''tableComment'', JStr (tableComment ele))]"

definition table_json :: "table \<Rightarrow> jsval" where
  "table_json ele =
     JObj [(''table_name'', JStr (tableName ele)), (''table_comment'', JStr (tableComment ele))]"

text \<open>
  The parent's handler of the event \<open>changeActiveStep\<close>, and the effect of a handler's
  events on the prop \<open>activeStep\<close>.
\<close>

definition changeActiveStep :: "int \<Rightarrow> state \<Rightarrow> state" where
  "changeActiveStep val st = st\<lparr>activeStep := (if val > 2 then 2 else val)\<rparr>"

fun deliver :: "effect list \<Rightarrow> state \<Rightarrow> state" where
  "deliver [] st = st"
| "deliver (Emit_changeActiveStep val # effs) st = deliver effs (changeActiveStep val st)"
| "deliver (eff # effs) st = deliver effs st"

fun emits_step :: "effect \<Rightarrow> bool" where
  "emits_step (Emit_changeActiveStep val) = True"
| "emits_step eff = False"

text \<open>
  The button \<open>next\<close> of the first form component. \<open>formEl\<close> says that the form instance
  is there, \<open>valid\<close> is what the form validation reports. The function covers the handler
  up to the request it sends; the callbacks of the request follow as functions of their own.
\<close>

definition next_step :: "bool \<Rightarrow> bool \<Rightarrow> state \<Rightarrow> error + effect list \<times> state" where
  "next_step formEl valid st =
     (if \<not> formEl then Inr ([], st)
      else if \<not> valid then Inr ([], st)
      else if get_field (form st) ''type'' = JStr ''excel'' then
        Inr (if excelUploadSuccess st then [Emit_changeActiveStep (activeStep st + 1)] else [], st)
      else if get_field (form st) ''type'' = JStr ''api'' then
        (if uploadLoading st then Inr ([], st)
         else Inr ([Req_fetchExcelFromApi (api_request (form st))], st\<lparr>uploadLoading := True\<rparr>))
      else
        (if checkLoading st then Inr ([], st)
         else (case buildConf (form st) of
                 Inl e \<Rightarrow> Inl e
               | Inr (f', requestObj) \<Rightarrow>
                   Inr ([Req_check requestObj], st\<lparr>form := f', checkLoading := True\<rparr>))))"

definition next_check_then :: "bool \<Rightarrow> obj \<Rightarrow> state \<Rightarrow> effect list \<times> state" where
  "next_check_then res requestObj st =
     (if res then ([Emit_changeActiveStep (activeStep st + 1), Req_getTablesByConf requestObj], st)
      else ([Message ''error'' ''ds.form.connect.failed''], st))"

definition next_check_finally :: "state \<Rightarrow> state" where
  "next_check_finally st = st\<lparr>checkLoading := False\<rparr>"

definition next_tables_then :: "table list \<Rightarrow> state \<Rightarrow> state" where
  "next_tables_then res st = st\<lparr>tableList := res\<rparr>"

definition next_fetch_then :: "response \<Rightarrow> state \<Rightarrow> effect list \<times> state" where
  "next_fetch_then data st =
     ([Emit_changeActiveStep (activeStep st + 1)],
      st\<lparr>form := set_field ''originType'' (JStr ''api'')
                  (set_field ''type'' (JStr ''excel'')
                  (set_field ''sheets'' (JArr (map sheet_json (r_sheets data)))
                  (set_field ''filename'' (JStr (r_filename data)) (form st)))),
         tableList := r_sheets data,
         excelUploadSuccess := True\<rparr>)"

definition next_fetch_catch :: "state \<Rightarrow> effect list \<times> state" where
  "next_fetch_catch st =
     ([Console_error ''Fetch Excel from API failed'',
       Message ''error'' ''fetching the Excel file through the API failed''], st)"

definition next_fetch_finally :: "state \<Rightarrow> state" where
  "next_fetch_finally st = st\<lparr>uploadLoading := False\<rparr>"

definition preview :: "state \<Rightarrow> effect list \<times> state" where
  "preview st = ([Emit_changeActiveStep (activeStep st - 1)], st)"

definition onSuccess :: "response \<Rightarrow> state \<Rightarrow> state" where
  "onSuccess data st =
     st\<lparr>form := set_field ''sheets'' (JArr (map sheet_json (r_sheets data)))
                  (set_field ''filename'' (JStr (r_filename data)) (form st)),
        tableList := r_sheets data,
        excelUploadSuccess := True,
        uploadLoading := False\<rparr>"

definition onError :: "state \<Rightarrow> state" where
  "onError st = st\<lparr>uploadLoading := False\<rparr>"

definition close_form :: "state \<Rightarrow> effect list \<times> state" where
  "close_form st =
     ([Emit_changeActiveStep 0, Emit_close],
      st\<lparr>dialogVisible := False, isCreate := True, isEditTable := False, checkList := [],
         tableList := [], excelUploadSuccess := False, saveLoading := False\<rparr>)"


section \<open>The form component with vertical concatenation\<close>

text \<open>
  The second form component has no API fields and no origin marker; it adds the
  concatenation mode (prop \<open>concatenateMode\<close>, ref \<open>multipleFiles\<close>). Its functions carry the
  suffix 2. Its selection handlers, \<open>beforeUpload\<close> and upload callbacks are those above.
\<close>

definition form_init2 :: "string \<Rightarrow> obj" where
  "form_init2 activeType =
     [(''name'', JStr ''''), (''description'', JStr ''''), (''type'', JStr activeType),
      (''configuration'', JStr ''''), (''driver'', JStr ''''), (''host'', JStr ''''),
      (''port'', JNum 0), (''username'', JStr ''''), (''password'', JStr ''''),
      (''database'', JStr ''''), (''extraJdbc'', JStr ''''), (''dbSchema'', JStr ''''),
      (''filename'', JStr ''''), (''sheets'', JArr []), (''mode'', JStr ''service_name''),
      (''timeout'', JNum 30)]"

definition relational_deleted2 :: "string list" where
  "relational_deleted2 =
     [''driver'', ''host'', ''port'', ''username'', ''password'', ''database'', ''extraJdbc'',
      ''dbSchema'', ''filename'', ''sheets'', ''mode'', ''timeout'']"

definition relational_configuration2 :: "obj \<Rightarrow> obj" where
  "relational_configuration2 f =
     [(''host'', get_field f ''host''),
      (''port'', get_field f ''port''),
      (''username'', get_field f ''username''),
      (''password'', get_field f ''password''),
      (''database'', get_field f ''database''),
      (''extraJdbc'', get_field f ''extraJdbc''),
      (''dbSchema'', get_field f ''dbSchema''),
      (''filename'', get_field f ''filename''),
      (''sheets'', get_field f ''sheets''),
      (''mode'', get_field f ''mode''),
      (''timeout'', get_field f ''timeout'')]"

definition buildConf2 :: "obj \<Rightarrow> error + obj \<times> obj" where
  "buildConf2 f =
     (let f1 = set_field ''configuration''
                 (encrypted (JSON_stringify (JObj (relational_configuration2 f)))) f
      in case copy_without relational_deleted2 f1 of
           Inl e \<Rightarrow> Inl e
         | Inr ob \<Rightarrow> Inr (f1, ob))"

definition check2 :: "state \<Rightarrow> error + effect list \<times> state" where
  "check2 st =
     (case buildConf2 (form st) of
        Inl e \<Rightarrow> Inl e
      | Inr (f', requestObj) \<Rightarrow> Inr ([Req_check requestObj], st\<lparr>form := f'\<rparr>))"

definition getSchema2 :: "state \<Rightarrow> error + effect list \<times> state" where
  "getSchema2 st =
     (case buildConf2 (form st) of
        Inl e \<Rightarrow> Inl e
      | Inr (f', requestObj) \<Rightarrow>
          Inr ([Req_getSchema requestObj], st\<lparr>schemaList := [], form := f'\<rparr>))"

text \<open>
  \<open>save\<close>. The answers of the outside world are parameters: \<open>valid\<close> (form validation),
  \<open>confirmed\<close> (the confirmation box for more than 30 tables), \<open>merged\<close> (the answer of
  \<open>concatenateExcels\<close>, \<open>None\<close> when the request fails) and \<open>added\<close> (whether \<open>add\<close>
  succeeds). In concatenation mode the function runs to its end, through both awaited
  requests; otherwise it stops at the request it sends.
\<close>

definition concatenate_request :: "state \<Rightarrow> effect" where
  "concatenate_request st = Req_concatenateExcels (multipleFiles st) ''_'' ''0''"

definition save2 ::
  "bool \<Rightarrow> bool \<Rightarrow> bool \<Rightarrow> response option \<Rightarrow> bool \<Rightarrow> state \<Rightarrow> error + effect list \<times> state" where
  "save2 formEl valid confirmed merged added st =
     (if \<not> formEl then Inr ([], st)
      else if concatenateMode st then
        (if length (multipleFiles st) < 2
         then Inr ([Message ''warning'' ''select at least two files to merge''], st)
         else if \<not> valid then Inr ([], st)
         else
           (case merged of
              None \<Rightarrow>
                Inr ([concatenate_request st,
                      Console_error ''creating the concatenated data source failed'',
                      Message ''error'' ''creating the concatenated data source failed''],
                     st\<lparr>saveLoading := False\<rparr>)
            | Some response \<Rightarrow>
                (let f1 = set_field ''sheets'' (JArr (map sheet_json (r_sheets response)))
                           (set_field ''filename'' (JStr (r_filename response)) (form st));
                     list = map table_json (r_sheets response)
                 in case buildConf2 f1 of
                      Inl e \<Rightarrow>
                        Inr ([concatenate_request st,
                              Console_error ''creating the concatenated data source failed'',
                              Message ''error'' ''creating the concatenated data source failed''],
                             st\<lparr>form := f1, saveLoading := False\<rparr>)
                    | Inr (f2, requestObj) \<Rightarrow>
                        Inr ([concatenate_request st,
                              Req_add (set_field ''tables'' (JArr list) requestObj)]
                             @ (if added
                                then [Message ''success'' ''concatenated data source created'',
                                      Emit_refresh]
                                else [Console_error ''creating the concatenated data source failed'',
                                      Message ''error''
                                        ''creating the concatenated data source failed'']),
                             st\<lparr>form := f2, saveLoading := False\<rparr>))))
      else if \<not> valid then Inr ([], st)
      else
        (let list = map table_json
                      (filter (\<lambda>ele. tableName ele \<in> set (checkTableList st)) (tableList st));
             asked = (if length (checkTableList st) > 30
                      then [Confirm_excessive (length (checkTableList st))] else [])
         in if length (checkTableList st) > 30 \<and> \<not> confirmed then Inr (asked, st)
            else
              (case buildConf2 (form st) of
                 Inl e \<Rightarrow> Inl e
               | Inr (f', requestObj) \<Rightarrow>
                   Inr (asked @
                        [if truthy (get_field f' ''id'')
                         then (if \<not> isEditTable st then Req_update requestObj
                               else Req_chooseTables (get_field f' ''id'') list)
                         else Req_add (set_field ''tables'' (JArr list) requestObj)],
                        st\<lparr>form := f', saveLoading := True\<rparr>))))"

text \<open>
  The button \<open>next\<close> of the second component. In concatenation mode it awaits the merge and
  then \<open>save\<close>; \<open>merged\<close> answers its own request, the remaining parameters are those of
  \<open>save\<close>. The name test is \<open>!name || name.trim() === ''\<close>; \<open>trim\<close> exists on strings only,
  and a symbolic text is never blank.
\<close>

fun blank_name :: "jsval \<Rightarrow> error + bool" where
  "blank_name (JStr s) = Inr (s = [] \<or> trim s = [])"
| "blank_name (JText v) = Inr False"
| "blank_name (JBlob t) = Inr False"
| "blank_name v = (if truthy v then Inl TypeError else Inr True)"

definition next_step2 ::
  "bool \<Rightarrow> bool \<Rightarrow> response option \<Rightarrow> bool \<Rightarrow> response option \<Rightarrow> bool \<Rightarrow> state
     \<Rightarrow> error + effect list \<times> state" where
  "next_step2 formEl valid merged confirmed merged_again added st =
     (if \<not> formEl then Inr ([], st)
      else if concatenateMode st then
        (if length (multipleFiles st) \<ge> 2 then
           (case blank_name (get_field (form st) ''name'') of
              Inl e \<Rightarrow> Inl e
            | Inr True \<Rightarrow> Inr ([Message ''warning'' ''enter the data source name''], st)
            | Inr False \<Rightarrow>
               (case merged of
                  None \<Rightarrow>
                    Inr ([concatenate_request st,
                          Message ''error'' ''merging the files failed'',
                          Console_error ''merging the files failed''], st)
                | Some response \<Rightarrow>
                    (let st1 = st\<lparr>form := set_field ''sheets''
                                           (JArr (map sheet_json (r_sheets response)))
                                           (set_field ''filename'' (JStr (r_filename response))
                                              (form st)),
                                  tableList := r_sheets response,
                                  excelUploadSuccess := True,
                                  checkList := map tableName (r_sheets response)\<rparr>
                     in case save2 True valid confirmed merged_again added st1 of
                          Inl e \<Rightarrow>
                            Inr ([concatenate_request st,
                                  Message ''error'' ''merging the files failed'',
                                  Console_error ''merging the files failed''], st1)
                        | Inr (effs, st2) \<Rightarrow> Inr (concatenate_request st # effs, st2))))
         else Inr ([Message ''warning'' ''select at least two files to merge''], st))
      else if \<not> valid then Inr ([], st)
      else if get_field (form st) ''type'' = JStr ''excel'' then
        Inr (if excelUploadSuccess st then [Emit_changeActiveStep (activeStep st + 1)] else [], st)
      else
        (if checkLoading st then Inr ([], st)
         else (case buildConf2 (form st) of
                 Inl e \<Rightarrow> Inl e
               | Inr (f', requestObj) \<Rightarrow>
                   Inr ([Req_check requestObj], st\<lparr>form := f', checkLoading := True\<rparr>))))"


section \<open>Derived forms\<close>

text \<open>
  The form object as \<open>buildConf\<close> leaves it for a type other than \<open>api\<close>, the same for
  the second component, and the value an object member has after a JSON round trip.
\<close>

definition built_relational :: "obj \<Rightarrow> obj" where
  "built_relational f =
     set_field ''configuration'' (JBlob (JText (JObj (clone_members (relational_configuration f))))) f"

definition built2 :: "obj \<Rightarrow> obj" where
  "built2 f =
     set_field ''configuration'' (JBlob (JText (JObj (clone_members (relational_configuration2 f))))) f"

definition json_member :: "jsval \<Rightarrow> jsval" where
  "json_member v = (if v = JUndefined then JUndefined else clone v)"


text \<open>The refs after the merge request of \<open>next\<close> has been answered.\<close>

definition merged_state :: "response \<Rightarrow> state \<Rightarrow> state" where
  "merged_state response st =
     st\<lparr>form := set_field ''sheets'' (JArr (map sheet_json (r_sheets response)))
                  (set_field ''filename'' (JStr (r_filename response)) (form st)),
        tableList := r_sheets response,
        excelUploadSuccess := True,
        checkList := map tableName (r_sheets response)\<rparr>"


text \<open>
  The literal strings that can be read off a value without decrypting anything: those of
  its members and elements and of the JSON texts it holds, but not what is inside a blob.
\<close>

fun plain_strings :: "jsval \<Rightarrow> string list"
  and plain_strings_elems :: "jsval list \<Rightarrow> string list"
  and plain_strings_members :: "obj \<Rightarrow> string list" where
  "plain_strings (JStr s) = [s]"
| "plain_strings (JText v) = plain_strings v"
| "plain_strings (JBlob t) = []"
| "plain_strings (JArr xs) = plain_strings_elems xs"
| "plain_strings (JObj ms) = plain_strings_members ms"
| "plain_strings v = []"
| "plain_strings_elems [] = []"
| "plain_strings_elems (x # xs) = plain_strings x @ plain_strings_elems xs"
| "plain_strings_members [] = []"
| "plain_strings_members ((k, v) # ms) = plain_strings v @ plain_strings_members ms"


text \<open>The form object as \<open>buildConf\<close> leaves it for the type \<open>api\<close>, given the status codes.\<close>

definition built_api :: "obj \<Rightarrow> jsval list \<Rightarrow> obj" where
  "built_api f codes =
     set_field ''certificate'' (JText (JArr (clone_elems (certificateList_of f))))
       (set_field ''configuration''
          (JBlob (JText (JObj (clone_members (api_configuration f codes (certificateList_of f))))))
          f)"


text \<open>
  Values that a JSON round trip returns unchanged: no \<open>undefined\<close> and no \<open>NaN\<close> anywhere
  inside.
\<close>

fun json_plain :: "jsval \<Rightarrow> bool"
  and json_plain_elems :: "jsval list \<Rightarrow> bool"
  and json_plain_members :: "obj \<Rightarrow> bool" where
  "json_plain JUndefined = False"
| "json_plain JNaN = False"
| "json_plain (JArr xs) = json_plain_elems xs"
| "json_plain (JObj ms) = json_plain_members ms"
| "json_plain v = True"
| "json_plain_elems [] = True"
| "json_plain_elems (x # xs) = (json_plain x \<and> json_plain_elems xs)"
| "json_plain_members [] = True"
| "json_plain_members ((k, v) # ms) = (json_plain v \<and> json_plain_members ms)"


section \<open>Example states\<close>

text \<open>The component's refs as they are initialised (the form object is filled in below).\<close>

definition init_state :: state where
  "init_state = \<lparr>form = [], dialogVisible = False, dialogTitle = [], isCreate = True, isEditTable = False, checkList = [], tableList = [],
     excelUploadSuccess = False, tableListLoading = False, checkLoading = False,
     saveLoading = False, uploadLoading = False, schemaList = [], keywords_v = [],
     checkAll = False, isIndeterminate = False, checkTableList = [], fileSize = ''-'',
     multipleFiles = [], activeStep = 0, concatenateMode = False\<rparr>"

definition tbl :: "string \<Rightarrow> table" where
  "tbl n = \<lparr>tableName = n, tableComment = []\<rparr>"

definition ex_sel :: state where
  "ex_sel = init_state\<lparr>tableList := [tbl ''xy1'', tbl ''xyz'', tbl ''yz2''],
                        checkTableList := [''xy1'', ''yz2'']\<rparr>"

definition ex_five :: state where
  "ex_five = init_state\<lparr>tableList := [tbl ''Orders'', tbl ''order_items'', tbl ''users'',
        tbl ''ORDER_LOG'', tbl ''reorder'', tbl ''preorders'', tbl ''items''],
      checkTableList := [''users'', ''Orders'', ''reorder'']\<rparr>"

definition ex_all :: state where
  "ex_all = ex_five\<lparr>checkTableList := [''users'', ''Orders'', ''reorder'',
        ''order_items'', ''ORDER_LOG'', ''preorders'']\<rparr>"



text \<open>An API form with a header credential, and the state after its fetch has succeeded.\<close>

definition ex_api :: obj where
  "ex_api = set_field ''headerValue'' (JStr ''s3cret'')
             (set_field ''headerKey'' (JStr ''Authorization'')
             (set_field ''endpoint'' (JStr ''https://example.org/report.xlsx'') (form_init ''api'')))"

definition ex_fetched :: state where
  "ex_fetched = snd (next_fetch_then \<lparr>r_filename = ''report.xlsx'', r_sheets = [tbl ''Sheet1'']\<rparr>
                      (init_state\<lparr>form := ex_api, activeStep := 1\<rparr>))"


text \<open>
  States of the wizard at the step Configure: a relational form, an Excel form after a
  successful upload, the API form, and the second component in concatenation mode with two
  files, once with the name \<open>merged\<close> and once with a name that is a single space.
\<close>

definition ex_relational :: state where
  "ex_relational = init_state\<lparr>form := form_init ''mysql'', activeStep := 1\<rparr>"

definition ex_uploaded :: state where
  "ex_uploaded = onSuccess \<lparr>r_filename = ''book.xlsx'', r_sheets = [tbl ''Sheet1'']\<rparr>
                   (init_state\<lparr>form := form_init ''excel'', activeStep := 1\<rparr>)"

definition ex_api_state :: state where
  "ex_api_state = init_state\<lparr>form := ex_api, activeStep := 1\<rparr>"

definition ex_file :: "string \<Rightarrow> rawFile" where
  "ex_file n = \<lparr>file_name = n, size_bytes = 1024\<rparr>"

definition ex_concat :: state where
  "ex_concat = init_state\<lparr>form := set_field ''name'' (JStr ''merged'') (form_init2 ''excel''),
                           multipleFiles := [ex_file ''a.csv'', ex_file ''b.csv''],
                           activeStep := 1, concatenateMode := True\<rparr>"

definition ex_blank :: state where
  "ex_blank = ex_concat\<lparr>form := set_field ''name'' (JStr '' '') (form_init2 ''excel'')\<rparr>"

definition ex_merged :: response where
  "ex_merged = \<lparr>r_filename = ''merged.csv'', r_sheets = [tbl ''merged'']\<rparr>"


text \<open>
  A MySQL form with host and password, the same with the timeout set to 0 (the lower bound
  of the timeout input), and the API form with the status codes typed as \<open>200, 201\<close>.
\<close>

definition ex_mysql :: obj where
  "ex_mysql = set_field ''password'' (JStr ''pw'')
                (set_field ''host'' (JStr ''db1'') (form_init ''mysql''))"

definition ex_timeout0 :: obj where
  "ex_timeout0 = set_field ''timeout'' (JNum 0) ex_mysql"

definition ex_codes :: obj where
  "ex_codes = set_field ''successStatusCodes'' (JStr ''200, 201'') ex_api"


section \<open>Properties of the built-ins\<close>

lemma includes_sublist: "includes_js s t \<longleftrightarrow> sublist t s"
  by (induction s) (simp_all add: sublist_Cons_right)

lemma includes_iff: "includes_js s t \<longleftrightarrow> (\<exists>pre post. s = pre @ t @ post)"
  by (simp add: includes_sublist sublist_def)

lemma fold_Set_add_set: "set (fold Set_add xs acc) = set acc \<union> set xs"
  by (induction xs arbitrary: acc) (auto simp: Set_add_def)

lemma fold_Set_add_distinct: "distinct acc \<Longrightarrow> distinct (fold Set_add xs acc)"
  by (induction xs arbitrary: acc) (auto simp: Set_add_def)

lemma set_new_Set: "set (new_Set xs) = set xs"
  by (simp add: new_Set_def fold_Set_add_set)

lemma distinct_new_Set: "distinct (new_Set xs)"
  by (simp add: new_Set_def fold_Set_add_distinct)


section \<open>Selection reconciler: proofs\<close>

lemma checkTableList_setFilter: "checkTableList (setFilter kw st) = checkTableList st"
  by (simp add: setFilter_def watch_keywords_def Let_def)

lemma toggleAll_hidden:
  "n \<notin> set (tableNameArr st) \<Longrightarrow>
   n \<in> set (checkTableList (toggleAll val st)) \<longleftrightarrow> n \<in> set (checkTableList st)"
  by (auto simp: toggleAll_def handleCheckAllChange_def Let_def set_new_Set
        tableNameArr_def tableListWithSearch_def)

lemma toggleMany_set:
  "set (checkTableList (toggleMany val st)) = (set (checkTableList st) - set (tableNameArr st)) \<union> set val"
  by (auto simp: toggleMany_def handleCheckedTablesChange_def Let_def set_new_Set
        tableNameArr_def tableListWithSearch_def)

lemmas sel_eval = ex_sel_def ex_five_def ex_all_def init_state_def tbl_def setFilter_def watch_keywords_def
  tableNameArr_def tableListWithSearch_def toLowerCase_def lower_char_def char_of_def bit_Suc_0_iff
  toggleMany_def toggleAll_def handleCheckedTablesChange_def handleCheckAllChange_def
  new_Set_def Set_add_def Let_def


text \<open>
  Claim C1. In any run of keyword changes, select-all toggles and checkbox-group changes
  (each checkbox-group value being drawn from the rows visible at that moment), a table name
  that is outside the visible rows at every toggle of the run is neither added to nor removed
  from \<open>checkTableList\<close>. A name that is never visible during the run is such a name.
\<close>

theorem hidden_selection_untouched: "drawn_from_visible ops st \<Longrightarrow> hidden_at_toggles n ops st \<Longrightarrow>
   n \<in> set (checkTableList (sel_run ops st)) \<longleftrightarrow> n \<in> set (checkTableList st)"
proof (induction ops arbitrary: st)
  case Nil
  then show ?case by simp
next
  case (Cons x xs)
  show ?case
  proof (cases x)
    case (SetFilter kw)
    with Cons show ?thesis by (simp add: checkTableList_setFilter)
  next
    case (ToggleAll val)
    with Cons show ?thesis by (simp add: toggleAll_hidden)
  next
    case (ToggleMany val)
    with Cons.prems have h: "n \<notin> set (tableNameArr st)" "set val \<subseteq> set (tableNameArr st)"
      by (auto simp: list_all_iff)
    from Cons ToggleMany have "n \<in> set (checkTableList (sel_run (x # xs) st)) \<longleftrightarrow>
        n \<in> set (checkTableList (toggleMany val st))" by simp
    also have "\<dots> \<longleftrightarrow> n \<in> set (checkTableList st)"
      using h by (auto simp: toggleMany_set)
    finally show ?thesis .
  qed
qed

text \<open>
  The run of the specification's example: tables \<open>xy1\<close>, \<open>xyz\<close>, \<open>yz2\<close> in the roles
  of A, B, C, with A and C selected. Filtering to A and B and reporting A as checked leaves
  A and C selected; filtering to B and C and unchecking select-all leaves A.
\<close>

theorem hidden_selection_untouched_witness: "drawn_from_visible [SetFilter ''xy'', ToggleMany [''xy1'']] ex_sel \<and>
  hidden_at_toggles ''yz2'' [SetFilter ''xy'', ToggleMany [''xy1'']] ex_sel \<and>
  (''yz2'' \<in> set (checkTableList (sel_run [SetFilter ''xy'', ToggleMany [''xy1'']] ex_sel))
    \<longleftrightarrow> ''yz2'' \<in> set (checkTableList ex_sel)) \<and>
  checkTableList ex_sel = [''xy1'', ''yz2''] \<and>
  tableNameArr (sel_run [SetFilter ''xy''] ex_sel) = [''xy1'', ''xyz''] \<and>
  checkTableList (sel_run [SetFilter ''xy'', ToggleMany [''xy1'']] ex_sel) = [''yz2'', ''xy1''] \<and>
  tableNameArr (sel_run [SetFilter ''xy'', ToggleMany [''xy1''], SetFilter ''YZ''] ex_sel) = [''xyz'', ''yz2''] \<and>
  checkTableList (sel_run [SetFilter ''xy'', ToggleMany [''xy1''], SetFilter ''YZ'', ToggleAll False] ex_sel) = [''xy1'']"
proof -
  have a: "drawn_from_visible [SetFilter ''xy'', ToggleMany [''xy1'']] ex_sel" by (simp add: sel_eval)
  have b: "hidden_at_toggles ''yz2'' [SetFilter ''xy'', ToggleMany [''xy1'']] ex_sel" by (simp add: sel_eval)
  have c: "checkTableList ex_sel = [''xy1'', ''yz2'']" by (simp add: sel_eval)
  have d: "tableNameArr (sel_run [SetFilter ''xy''] ex_sel) = [''xy1'', ''xyz'']" by (simp add: sel_eval)
  have e: "checkTableList (sel_run [SetFilter ''xy'', ToggleMany [''xy1'']] ex_sel) = [''yz2'', ''xy1'']" by (simp add: sel_eval)
  have f: "tableNameArr (sel_run [SetFilter ''xy'', ToggleMany [''xy1''], SetFilter ''YZ''] ex_sel) = [''xyz'', ''yz2'']" by (simp add: sel_eval)
  have g: "checkTableList (sel_run [SetFilter ''xy'', ToggleMany [''xy1''], SetFilter ''YZ'', ToggleAll False] ex_sel) = [''xy1'']" by (simp add: sel_eval)
  from hidden_selection_untouched [OF a b] a b c d e f g show ?thesis by blast
qed


text \<open>
  Claim C2. One checkbox-group change whose reported list is drawn from the visible names
  sets \<open>checkTableList\<close> to the old list without the visible names, followed by the reported
  list, without duplicates; as sets, (selected minus visible) union reported. Names outside
  the visible rows keep their membership.
\<close>

theorem toggleMany_reconciles:
  assumes "set explicit \<subseteq> set (tableNameArr st)"
  shows "checkTableList (handleCheckedTablesChange explicit st) =
           new_Set (filter (\<lambda>ele. ele \<notin> set (tableNameArr st)) (checkTableList st) @ explicit)
       \<and> set (checkTableList (handleCheckedTablesChange explicit st)) =
           (set (checkTableList st) - set (tableNameArr st)) \<union> set explicit
       \<and> distinct (checkTableList (handleCheckedTablesChange explicit st))
       \<and> (\<forall>n. n \<notin> set (tableNameArr st) \<longrightarrow>
             (n \<in> set (checkTableList (handleCheckedTablesChange explicit st))
                \<longleftrightarrow> n \<in> set (checkTableList st)))"
proof -
  let ?r = "checkTableList (handleCheckedTablesChange explicit st)"
  have eq: "?r = new_Set (filter (\<lambda>ele. ele \<notin> set (tableNameArr st)) (checkTableList st) @ explicit)"
    by (simp add: handleCheckedTablesChange_def Let_def)
  have s: "set ?r = (set (checkTableList st) - set (tableNameArr st)) \<union> set explicit"
    unfolding eq by (auto simp: set_new_Set)
  have d: "distinct ?r" unfolding eq by (rule distinct_new_Set)
  have o: "\<forall>n. n \<notin> set (tableNameArr st) \<longrightarrow> (n \<in> set ?r \<longleftrightarrow> n \<in> set (checkTableList st))"
    using assms unfolding s by auto
  from eq s d o show ?thesis by blast
qed


theorem toggleMany_reconciles_witness: "set [''xyz''] \<subseteq> set (tableNameArr (setFilter ''xy'' ex_sel)) \<and>
   checkTableList (handleCheckedTablesChange [''xyz''] (setFilter ''xy'' ex_sel)) = [''yz2'', ''xyz'']"
proof -
  have n: "tableNameArr (setFilter ''xy'' ex_sel) = [''xy1'', ''xyz'']" by (simp add: sel_eval)
  have c: "checkTableList (setFilter ''xy'' ex_sel) = [''xy1'', ''yz2'']" by (simp add: sel_eval)
  have h: "set [''xyz''] \<subseteq> set (tableNameArr (setFilter ''xy'' ex_sel))" by (simp add: n)
  have "checkTableList (handleCheckedTablesChange [''xyz''] (setFilter ''xy'' ex_sel)) = [''yz2'', ''xyz'']"
    using toggleMany_reconciles [OF h] by (simp add: n c new_Set_def Set_add_def)
  with h show ?thesis by blast
qed


text \<open>
  Claim C7. After a keyword change the visible rows are the rows whose lower-cased name
  contains the lower-cased keyword (all rows for the empty keyword), \<open>checkList\<close> is the
  selection restricted to the visible names, \<open>checkAll\<close> says that its size equals the number
  of visible rows and \<open>isIndeterminate\<close> that it lies strictly between 0 and that number.
  With five visible rows, five checked give \<open>checkAll\<close> and two checked give
  \<open>isIndeterminate\<close>.
\<close>

theorem setFilter_recomputes:
  assumes "kw \<noteq> keywords_v st"
  shows "let st' = setFilter kw st; vis = tableListWithSearch st'; cl = checkList st'
     in vis = (if kw = [] then tableList st
               else filter (\<lambda>r. \<exists>pre post. toLowerCase (tableName r) = pre @ toLowerCase kw @ post)
                      (tableList st))
      \<and> cl = filter (\<lambda>n. n \<in> set (map tableName vis)) (checkTableList st)
      \<and> set cl = set (checkTableList st) \<inter> set (map tableName vis)
      \<and> (distinct (checkTableList st) \<longrightarrow>
           length cl = card (set (checkTableList st) \<inter> set (map tableName vis)))
      \<and> checkAll st' = (length cl = length vis)
      \<and> isIndeterminate st' = (0 < length cl \<and> length cl < length vis)
      \<and> (length vis = 5 \<and> length cl = 5 \<longrightarrow> checkAll st' \<and> \<not> isIndeterminate st')
      \<and> (length vis = 5 \<and> length cl = 2 \<longrightarrow> \<not> checkAll st' \<and> isIndeterminate st')
      \<and> checkTableList st' = checkTableList st"
proof -
  define st' where "st' = setFilter kw st"
  define vis where "vis = tableListWithSearch st'"
  define cl where "cl = checkList st'"
  have st': "st' = watch_keywords (st\<lparr>keywords_v := kw\<rparr>)"
    using assms by (simp add: st'_def setFilter_def)
  have v: "vis = (if kw = [] then tableList st
               else filter (\<lambda>r. \<exists>pre post. toLowerCase (tableName r) = pre @ toLowerCase kw @ post)
                      (tableList st))"
    by (simp add: vis_def st' watch_keywords_def tableListWithSearch_def Let_def includes_iff)
  have c: "cl = filter (\<lambda>n. n \<in> set (map tableName vis)) (checkTableList st)"
    by (simp add: cl_def vis_def st' watch_keywords_def tableNameArr_def tableListWithSearch_def Let_def)
  have s: "set cl = set (checkTableList st) \<inter> set (map tableName vis)"
    unfolding c by auto
  have k: "distinct (checkTableList st) \<longrightarrow>
           length cl = card (set (checkTableList st) \<inter> set (map tableName vis))"
  proof
    assume "distinct (checkTableList st)"
    then have "distinct cl" unfolding c by simp
    then have "length cl = card (set cl)" by (simp add: distinct_card)
    then show "length cl = card (set (checkTableList st) \<inter> set (map tableName vis))"
      by (simp only: s)
  qed
  have a: "checkAll st' = (length cl = length vis)"
    by (simp add: cl_def vis_def st' watch_keywords_def tableNameArr_def tableListWithSearch_def Let_def)
  have i: "isIndeterminate st' = (0 < length cl \<and> length cl < length vis)"
    by (simp add: cl_def vis_def st' watch_keywords_def tableNameArr_def tableListWithSearch_def Let_def)
  have t: "checkTableList st' = checkTableList st"
    by (simp add: st' watch_keywords_def Let_def)
  have e5: "length vis = 5 \<and> length cl = 5 \<longrightarrow> checkAll st' \<and> \<not> isIndeterminate st'"
    using a i by simp
  have e2: "length vis = 5 \<and> length cl = 2 \<longrightarrow> \<not> checkAll st' \<and> isIndeterminate st'"
    using a i by auto
  from v c s k a i e5 e2 t show ?thesis
    unfolding Let_def st'_def [symmetric] vis_def [symmetric] cl_def [symmetric] by blast
qed


theorem setFilter_recomputes_witness: "''ORDER'' \<noteq> keywords_v ex_five \<and>
   map tableName (tableListWithSearch (setFilter ''ORDER'' ex_five)) =
     [''Orders'', ''order_items'', ''ORDER_LOG'', ''reorder'', ''preorders''] \<and>
   checkList (setFilter ''ORDER'' ex_five) = [''Orders'', ''reorder''] \<and>
   \<not> checkAll (setFilter ''ORDER'' ex_five) \<and> isIndeterminate (setFilter ''ORDER'' ex_five) \<and>
   length (checkList (setFilter ''ORDER'' ex_all)) = 5 \<and>
   checkAll (setFilter ''ORDER'' ex_all) \<and> \<not> isIndeterminate (setFilter ''ORDER'' ex_all)"
proof -
  have h: "''ORDER'' \<noteq> keywords_v ex_five" by (simp add: sel_eval)
  have v: "map tableName (tableListWithSearch (setFilter ''ORDER'' ex_five)) =
     [''Orders'', ''order_items'', ''ORDER_LOG'', ''reorder'', ''preorders'']" by (simp add: sel_eval)
  have c: "checkList (setFilter ''ORDER'' ex_five) = [''Orders'', ''reorder'']" by (simp add: sel_eval)
  have l: "length (tableListWithSearch (setFilter ''ORDER'' ex_five)) = 5"
    using arg_cong [OF v, of length] by simp
  have "\<not> checkAll (setFilter ''ORDER'' ex_five) \<and> isIndeterminate (setFilter ''ORDER'' ex_five)"
    using setFilter_recomputes [OF h] l c by (simp add: Let_def)
  moreover have "length (checkList (setFilter ''ORDER'' ex_all)) = 5" by (simp add: sel_eval)
  moreover have "checkAll (setFilter ''ORDER'' ex_all)" by (simp add: sel_eval)
  moreover have "\<not> isIndeterminate (setFilter ''ORDER'' ex_all)" by (simp add: sel_eval)
  ultimately show ?thesis using h v c by blast
qed

section \<open>Local upload: proofs\<close>

text \<open>
  Claim C9. \<open>beforeUpload\<close> returns \<open>false\<close> exactly for files larger than 50 MB (50 times
  1024 times 1024 bytes, the unit the code divides by); then the error message is shown, the
  loading flag stays as it was and the upload component sends no request. A file of at most
  50 MB passes, the loading flag is set and the upload request is sent. A file of 51 MB is
  rejected and one of 49 MB proceeds.
\<close>

theorem beforeUpload_size_limit:
  "fst (beforeUpload setSize f st) = (size_bytes f \<le> 50 * 1024 * 1024)
   \<and> (size_bytes f > 50 * 1024 * 1024 \<longrightarrow>
        fst (el_upload setSize f st) = [Message ''error'' ''common.not_exceed_50mb'']
        \<and> uploadLoading (snd (el_upload setSize f st)) = uploadLoading st)
   \<and> (size_bytes f \<le> 50 * 1024 * 1024 \<longrightarrow>
        fst (el_upload setSize f st) = [Req_upload f]
        \<and> uploadLoading (snd (el_upload setSize f st)))
   \<and> (size_bytes f = 51 * 1024 * 1024 \<longrightarrow> \<not> fst (beforeUpload setSize f st))
   \<and> (size_bytes f = 49 * 1024 * 1024 \<longrightarrow> fst (beforeUpload setSize f st))"
proof -
  have lim: "(real (size_bytes f) / 1024 / 1024 > 50) = (size_bytes f > 50 * 1024 * 1024)"
    by (simp add: field_simps)
  show ?thesis
    by (simp add: beforeUpload_def el_upload_def setFile_def Let_def lim not_less [symmetric])
qed

theorem beforeUpload_size_limit_witness:
  "\<not> fst (beforeUpload (\<lambda>n. []) \<lparr>file_name = ''big.xlsx'', size_bytes = 51 * 1024 * 1024\<rparr> init_state)
   \<and> fst (el_upload (\<lambda>n. []) \<lparr>file_name = ''big.xlsx'', size_bytes = 51 * 1024 * 1024\<rparr> init_state)
       = [Message ''error'' ''common.not_exceed_50mb'']
   \<and> fst (beforeUpload (\<lambda>n. []) \<lparr>file_name = ''ok.xlsx'', size_bytes = 49 * 1024 * 1024\<rparr> init_state)
   \<and> fst (el_upload (\<lambda>n. []) \<lparr>file_name = ''ok.xlsx'', size_bytes = 49 * 1024 * 1024\<rparr> init_state)
       = [Req_upload \<lparr>file_name = ''ok.xlsx'', size_bytes = 49 * 1024 * 1024\<rparr>]"
  using beforeUpload_size_limit [of "\<lambda>n. []" "\<lparr>file_name = ''big.xlsx'', size_bytes = 51 * 1024 * 1024\<rparr>" init_state]
        beforeUpload_size_limit [of "\<lambda>n. []" "\<lparr>file_name = ''ok.xlsx'', size_bytes = 49 * 1024 * 1024\<rparr>" init_state]
  by simp

section \<open>Objects, JSON copies and the builder: basic facts\<close>

lemma JSON_stringify_JObj: "JSON_stringify (JObj ms) = JText (JObj (clone_members ms))"
  by (simp add: JSON_stringify_def)

lemma JSON_stringify_JArr: "JSON_stringify (JArr xs) = JText (JArr (clone_elems xs))"
  by (simp add: JSON_stringify_def)

lemma copy_without_eq: "copy_without ks f = Inr (delete_fields ks (clone_members f))"
  by (simp add: copy_without_def JSON_stringify_JObj)

lemma buildConf_relational:
  "get_field f ''type'' \<noteq> JStr ''api'' \<Longrightarrow>
   buildConf f = Inr (built_relational f,
                      delete_fields relational_deleted (clone_members (built_relational f)))"
  by (simp add: buildConf_def built_relational_def Let_def encrypted_def JSON_stringify_JObj
        copy_without_eq)

lemma buildConf2_eq:
  "buildConf2 f = Inr (built2 f, delete_fields relational_deleted2 (clone_members (built2 f)))"
  by (simp add: buildConf2_def built2_def Let_def encrypted_def JSON_stringify_JObj copy_without_eq)

lemma next_step_relational:
  assumes "get_field (form st) ''type'' \<noteq> JStr ''excel''" "get_field (form st) ''type'' \<noteq> JStr ''api''"
  shows "next_step formEl valid st =
           (if formEl \<and> valid \<and> \<not> checkLoading st
            then Inr ([Req_check (delete_fields relational_deleted
                                   (clone_members (built_relational (form st))))],
                      st\<lparr>form := built_relational (form st), checkLoading := True\<rparr>)
            else Inr ([], st))"
  using assms by (simp add: next_step_def buildConf_relational)

lemma next_step_excel:
  assumes "get_field (form st) ''type'' = JStr ''excel''"
  shows "next_step formEl valid st =
           Inr (if formEl \<and> valid \<and> excelUploadSuccess st
                then [Emit_changeActiveStep (activeStep st + 1)] else [], st)"
  using assms by (simp add: next_step_def)

lemma next_step_api:
  assumes "get_field (form st) ''type'' = JStr ''api''"
  shows "next_step formEl valid st =
           (if formEl \<and> valid \<and> \<not> uploadLoading st
            then Inr ([Req_fetchExcelFromApi (api_request (form st))], st\<lparr>uploadLoading := True\<rparr>)
            else Inr ([], st))"
  using assms by (simp add: next_step_def)

lemma save2_concat_no_step:
  assumes "concatenateMode st" "save2 formEl valid confirmed merged added st = Inr (effs, st')"
  shows "\<not> list_ex emits_step effs"
  using assms
  by (auto simp: save2_def buildConf2_eq concatenate_request_def Let_def
        split: if_splits option.splits)

lemma next_step2_concat_no_step:
  assumes "concatenateMode st"
    "next_step2 formEl valid merged confirmed merged_again added st = Inr (effs, st')"
  shows "\<not> list_ex emits_step effs"
proof -
  have *: "\<not> list_ex emits_step effs2"
    if "save2 True valid confirmed merged_again added st1 = Inr (effs2, st2)" "concatenateMode st1"
    for effs2 st1 st2
    using save2_concat_no_step [OF that(2) that(1)] .
  show ?thesis
    using assms
    by (auto simp: next_step2_def concatenate_request_def Let_def
          split: if_splits option.splits sum.splits bool.splits dest!: *)
qed

lemma get_field_set_field: "get_field (set_field k v ob) k' = (if k' = k then v else get_field ob k')"
  by (simp add: get_field_def set_field_def update_conv')

lemma has_field_iff: "has_field ms k \<longleftrightarrow> (\<exists>v. (k, v) \<in> set ms)"
  by (force simp: has_field_def)

lemma has_field_delete_fields: "has_field (delete_fields ks ob) k \<longleftrightarrow> k \<notin> set ks \<and> has_field ob k"
proof (induction ks arbitrary: ob)
  case Nil
  show ?case by (simp add: delete_fields_def)
next
  case (Cons a ks)
  have "has_field (delete_fields (a # ks) ob) k = has_field (delete_fields ks (delete_field a ob)) k"
    by (simp add: delete_fields_def)
  also have "\<dots> \<longleftrightarrow> k \<notin> set ks \<and> has_field (delete_field a ob) k"
    by (rule Cons.IH)
  also have "has_field (delete_field a ob) k \<longleftrightarrow> k \<noteq> a \<and> has_field ob k"
    by (auto simp: has_field_def delete_field_def delete_keys)
  finally show ?case by auto
qed

lemma get_field_delete_field: "get_field (delete_field a ob) k = (if k = a then JUndefined else get_field ob k)"
  by (simp add: get_field_def delete_field_def delete_conv')

lemma get_field_delete_fields:
  "get_field (delete_fields ks ob) k = (if k \<in> set ks then JUndefined else get_field ob k)"
proof (induction ks arbitrary: ob)
  case Nil
  show ?case by (simp add: delete_fields_def)
next
  case (Cons a ks)
  have "get_field (delete_fields (a # ks) ob) k = get_field (delete_fields ks (delete_field a ob)) k"
    by (simp add: delete_fields_def)
  then show ?case by (simp add: Cons.IH get_field_delete_field)
qed

lemma has_field_clone_members_iff:
  "has_field (clone_members ms) k \<longleftrightarrow> (\<exists>v. (k, v) \<in> set ms \<and> v \<noteq> JUndefined)"
proof (induction ms)
  case Nil
  show ?case by (simp add: has_field_iff)
next
  case (Cons a ms)
  obtain k' v where a: "a = (k', v)" by (cases a)
  show ?case
  proof (cases "v = JUndefined")
    case True
    with a Cons show ?thesis by auto
  next
    case False
    have "has_field (clone_members (a # ms)) k \<longleftrightarrow> k = k' \<or> has_field (clone_members ms) k"
      using a False by (auto simp: has_field_iff)
    with a False Cons show ?thesis by auto
  qed
qed

lemma has_field_clone_members: "has_field (clone_members ms) k \<Longrightarrow> has_field ms k"
  using has_field_clone_members_iff [of ms k] by (auto simp: has_field_iff [of ms])

lemma truthy_clone: "truthy (clone v) = truthy v"
  by (cases v) simp_all

lemma get_field_clone_members_defined:
  "get_field ms k \<noteq> JUndefined \<Longrightarrow> get_field (clone_members ms) k = clone (get_field ms k)"
  by (induction ms) (auto simp: get_field_def)

lemma get_field_absent: "\<not> has_field ms k \<Longrightarrow> get_field ms k = JUndefined"
  by (simp add: has_field_def get_field_def map_of_eq_None_iff [THEN iffD2])

lemma get_field_clone_members_undefined:
  "distinct (map fst ms) \<Longrightarrow> get_field ms k = JUndefined \<Longrightarrow> get_field (clone_members ms) k = JUndefined"
proof (induction ms)
  case Nil
  then show ?case by (simp add: get_field_def)
next
  case (Cons a ms)
  obtain k' v where a: "a = (k', v)" by (cases a)
  show ?case
  proof (cases "k' = k")
    case True
    with Cons.prems a have v: "v = JUndefined" by (simp add: get_field_def)
    from Cons.prems a True have "\<not> has_field ms k" by (auto simp: has_field_def)
    then have "\<not> has_field (clone_members ms) k" using has_field_clone_members by blast
    then show ?thesis using a v by (simp add: get_field_absent)
  next
    case False
    with Cons a show ?thesis by (auto simp: get_field_def)
  qed
qed

lemma get_field_clone_members:
  "distinct (map fst ms) \<Longrightarrow> get_field (clone_members ms) k = json_member (get_field ms k)"
  by (simp add: json_member_def get_field_clone_members_defined get_field_clone_members_undefined)

lemma api_record_drops_relational_fields:
  assumes "get_field f ''type'' = JStr ''api''" "buildConf f = Inr (f', r)"
    "k \<in> set [''driver'', ''host'', ''port'', ''username'', ''password'', ''database'',
              ''extraJdbc'', ''dbSchema'', ''filename'', ''sheets'', ''mode'']"
  shows "\<not> has_field r k"
proof -
  from assms(1,2) obtain ob where "r = delete_fields api_deleted ob"
    by (auto simp: buildConf_def Let_def copy_without_eq split: sum.splits)
  moreover have "k \<in> set api_deleted" using assms(3) by (auto simp: api_deleted_def)
  ultimately show ?thesis by (simp add: has_field_delete_fields)
qed

lemmas alist_eval = get_field_def set_field_def delete_field_def delete_fields_def has_field_def
  form_init_def form_fresh_def form_init2_def update.simps AList.delete_eq

lemmas build_eval = buildConf_def certificateList_of_def certificate_entry_def successStatusCodes_of_def
  api_configuration_def relational_configuration_def copy_without_def JSON_stringify_def
  encrypted_def api_deleted_def relational_deleted_def Let_def js_or_def


section \<open>Configuration builder: proofs\<close>

text \<open>
  Claim C3. For the type \<open>api\<close> the returned record has none of the relational fields
  (lemma \<open>api_record_drops_relational_fields\<close>). The converse fails: the branch for the
  other types deletes the relational fields, the timeout and the origin marker only, so the
  record of the component's initial MySQL form still has the fields \<open>endpoint\<close>,
  \<open>method\<close>, the six header, cookie and parameter fields, \<open>certificate\<close> and
  \<open>certificateList\<close>; and after an API fetch has turned the form into an Excel form, the
  record built from it carries the endpoint and the header credential as plain fields.
\<close>

theorem relational_record_keeps_api_fields:
  "(case buildConf (form_init ''mysql'') of
      Inl e \<Rightarrow> False
    | Inr (f', r) \<Rightarrow>
        list_all (has_field r)
          [''endpoint'', ''method'', ''headerKey'', ''headerValue'', ''cookieKey'', ''cookieValue'',
           ''paramKey'', ''paramValue'', ''certificate'', ''certificateList''])
   \<and> get_field (form ex_fetched) ''type'' = JStr ''excel''
   \<and> (case buildConf (form ex_fetched) of
        Inl e \<Rightarrow> False
      | Inr (f', r) \<Rightarrow>
          get_field r ''endpoint'' = JStr ''https://example.org/report.xlsx''
          \<and> get_field r ''headerKey'' = JStr ''Authorization''
          \<and> get_field r ''headerValue'' = JStr ''s3cret'')"
  by (simp add: alist_eval build_eval ex_fetched_def ex_api_def next_fetch_then_def init_state_def)

section \<open>Wizard controller: proofs\<close>

lemma next_step_no_emit_unless_excel:
  assumes "get_field (form st) ''type'' \<noteq> JStr ''excel''"
    "next_step formEl valid st = Inr (effs, st')"
  shows "\<not> list_ex emits_step effs"
proof (cases "get_field (form st) ''type'' = JStr ''api''")
  case True
  with assms(2) show ?thesis by (auto simp: next_step_api split: if_splits)
next
  case False
  with assms show ?thesis by (auto simp: next_step_relational split: if_splits)
qed

lemma next_step2_plain:
  assumes "\<not> concatenateMode st"
  shows "next_step2 formEl valid merged confirmed merged_again added st =
           (if \<not> formEl \<or> \<not> valid then Inr ([], st)
            else if get_field (form st) ''type'' = JStr ''excel''
            then Inr (if excelUploadSuccess st
                      then [Emit_changeActiveStep (activeStep st + 1)] else [], st)
            else if checkLoading st then Inr ([], st)
            else Inr ([Req_check (delete_fields relational_deleted2
                                    (clone_members (built2 (form st))))],
                      st\<lparr>form := built2 (form st), checkLoading := True\<rparr>))"
  using assms by (simp add: next_step2_def buildConf2_eq)

lemma save2_concat_total:
  assumes "concatenateMode st"
  shows "\<exists>effs st'. save2 True valid confirmed merged added st = Inr (effs, st')"
  using assms by (auto simp: save2_def buildConf2_eq Let_def split: option.splits)

lemma save2_concat_add:
  assumes "concatenateMode st" "2 \<le> length (multipleFiles st)"
  shows "\<exists>requestObj st'.
           save2 True True confirmed (Some again) added st =
             Inr ([concatenate_request st, Req_add requestObj]
                  @ (if added
                     then [Message ''success'' ''concatenated data source created'', Emit_refresh]
                     else [Console_error ''creating the concatenated data source failed'',
                           Message ''error'' ''creating the concatenated data source failed'']),
                  st')
           \<and> get_field requestObj ''tables'' = JArr (map table_json (r_sheets again))"
  using assms by (simp add: save2_def buildConf2_eq Let_def get_field_set_field)

lemmas wiz_eval = ex_relational_def ex_uploaded_def ex_api_state_def ex_file_def ex_concat_def
  ex_blank_def ex_merged_def ex_api_def init_state_def tbl_def onSuccess_def


text \<open>
  Claim C6. The event \<open>changeActiveStep\<close> that leads from Configure to ChooseTables is
  emitted only after a successful asynchronous outcome. For a relational type \<open>next\<close>
  emits nothing and at most sends the connectivity check; the callback of the check emits
  the step (and requests the tables) when the answer is \<open>true\<close>, which takes the parent
  from step 1 to step 2, and emits nothing when it is \<open>false\<close>. For \<open>excel\<close> the step is
  emitted exactly when the form is valid and \<open>excelUploadSuccess\<close> is set. For \<open>api\<close>
  \<open>next\<close> only sends the fetch; its success callback emits the step, sets the flag and
  turns the form's type into \<open>excel\<close>; its failure callback emits nothing. In concatenation
  mode \<open>next\<close> of the second component never emits the step; outside that mode it gates
  as the first component does.
\<close>

theorem step_gating:
  "(get_field (form st) ''type'' \<noteq> JStr ''excel'' \<and> get_field (form st) ''type'' \<noteq> JStr ''api'' \<longrightarrow>
      next_step formEl valid st =
        (if formEl \<and> valid \<and> \<not> checkLoading st
         then Inr ([Req_check (delete_fields relational_deleted
                                 (clone_members (built_relational (form st))))],
                   st\<lparr>form := built_relational (form st), checkLoading := True\<rparr>)
         else Inr ([], st)))
   \<and> next_check_then True requestObj st =
        ([Emit_changeActiveStep (activeStep st + 1), Req_getTablesByConf requestObj], st)
   \<and> (activeStep st = 1 \<longrightarrow>
        activeStep (deliver (fst (next_check_then True requestObj st)) st) = 2)
   \<and> \<not> list_ex emits_step (fst (next_check_then False requestObj st))
   \<and> (get_field (form st) ''type'' = JStr ''excel'' \<longrightarrow>
        next_step formEl valid st =
          Inr (if formEl \<and> valid \<and> excelUploadSuccess st
               then [Emit_changeActiveStep (activeStep st + 1)] else [], st))
   \<and> (get_field (form st) ''type'' = JStr ''api'' \<longrightarrow>
        next_step formEl valid st =
          (if formEl \<and> valid \<and> \<not> uploadLoading st
           then Inr ([Req_fetchExcelFromApi (api_request (form st))], st\<lparr>uploadLoading := True\<rparr>)
           else Inr ([], st)))
   \<and> fst (next_fetch_then data st) = [Emit_changeActiveStep (activeStep st + 1)]
   \<and> get_field (form (snd (next_fetch_then data st))) ''type'' = JStr ''excel''
   \<and> excelUploadSuccess (snd (next_fetch_then data st))
   \<and> \<not> list_ex emits_step (fst (next_fetch_catch st))
   \<and> (get_field (form st) ''type'' \<noteq> JStr ''excel'' \<longrightarrow>
        next_step formEl valid st = Inr (effs, st') \<longrightarrow> \<not> list_ex emits_step effs)
   \<and> (concatenateMode st \<longrightarrow>
        next_step2 formEl valid merged confirmed merged_again added st = Inr (effs2, st2) \<longrightarrow>
        \<not> list_ex emits_step effs2)
   \<and> (\<not> concatenateMode st \<longrightarrow>
        next_step2 formEl valid merged confirmed merged_again added st =
          (if \<not> formEl \<or> \<not> valid then Inr ([], st)
           else if get_field (form st) ''type'' = JStr ''excel''
           then Inr (if excelUploadSuccess st
                     then [Emit_changeActiveStep (activeStep st + 1)] else [], st)
           else if checkLoading st then Inr ([], st)
           else Inr ([Req_check (delete_fields relational_deleted2
                                   (clone_members (built2 (form st))))],
                     st\<lparr>form := built2 (form st), checkLoading := True\<rparr>)))"
proof -
  have r1: "get_field (form st) ''type'' \<noteq> JStr ''excel'' \<and> get_field (form st) ''type'' \<noteq> JStr ''api'' \<longrightarrow>
      next_step formEl valid st =
        (if formEl \<and> valid \<and> \<not> checkLoading st
         then Inr ([Req_check (delete_fields relational_deleted
                                 (clone_members (built_relational (form st))))],
                   st\<lparr>form := built_relational (form st), checkLoading := True\<rparr>)
         else Inr ([], st))"
    using next_step_relational by blast
  have r2: "next_check_then True requestObj st =
        ([Emit_changeActiveStep (activeStep st + 1), Req_getTablesByConf requestObj], st)"
    by (simp add: next_check_then_def)
  have r3: "activeStep st = 1 \<longrightarrow>
        activeStep (deliver (fst (next_check_then True requestObj st)) st) = 2"
    by (simp add: next_check_then_def changeActiveStep_def)
  have r4: "\<not> list_ex emits_step (fst (next_check_then False requestObj st))"
    by (simp add: next_check_then_def)
  have e: "get_field (form st) ''type'' = JStr ''excel'' \<longrightarrow>
        next_step formEl valid st =
          Inr (if formEl \<and> valid \<and> excelUploadSuccess st
               then [Emit_changeActiveStep (activeStep st + 1)] else [], st)"
    using next_step_excel by blast
  have a1: "get_field (form st) ''type'' = JStr ''api'' \<longrightarrow>
        next_step formEl valid st =
          (if formEl \<and> valid \<and> \<not> uploadLoading st
           then Inr ([Req_fetchExcelFromApi (api_request (form st))], st\<lparr>uploadLoading := True\<rparr>)
           else Inr ([], st))"
    using next_step_api by blast
  have a2: "fst (next_fetch_then data st) = [Emit_changeActiveStep (activeStep st + 1)]"
    by (simp add: next_fetch_then_def)
  have a3: "get_field (form (snd (next_fetch_then data st))) ''type'' = JStr ''excel''"
    by (simp add: next_fetch_then_def get_field_set_field)
  have a4: "excelUploadSuccess (snd (next_fetch_then data st))"
    by (simp add: next_fetch_then_def)
  have a5: "\<not> list_ex emits_step (fst (next_fetch_catch st))"
    by (simp add: next_fetch_catch_def)
  have n: "get_field (form st) ''type'' \<noteq> JStr ''excel'' \<longrightarrow>
        next_step formEl valid st = Inr (effs, st') \<longrightarrow> \<not> list_ex emits_step effs"
    using next_step_no_emit_unless_excel by blast
  have c: "concatenateMode st \<longrightarrow>
        next_step2 formEl valid merged confirmed merged_again added st = Inr (effs2, st2) \<longrightarrow>
        \<not> list_ex emits_step effs2"
    using next_step2_concat_no_step by blast
  have p: "\<not> concatenateMode st \<longrightarrow>
        next_step2 formEl valid merged confirmed merged_again added st =
          (if \<not> formEl \<or> \<not> valid then Inr ([], st)
           else if get_field (form st) ''type'' = JStr ''excel''
           then Inr (if excelUploadSuccess st
                     then [Emit_changeActiveStep (activeStep st + 1)] else [], st)
           else if checkLoading st then Inr ([], st)
           else Inr ([Req_check (delete_fields relational_deleted2
                                   (clone_members (built2 (form st))))],
                     st\<lparr>form := built2 (form st), checkLoading := True\<rparr>))"
    using next_step2_plain by blast
  show ?thesis
    apply (intro conjI)
    apply (rule r1) apply (rule r2) apply (rule r3) apply (rule r4) apply (rule e)
    apply (rule a1) apply (rule a2) apply (rule a3) apply (rule a4) apply (rule a5)
    apply (rule n) apply (rule c) apply (rule p)
    done
qed


theorem step_gating_witness:
  "get_field (form ex_relational) ''type'' \<noteq> JStr ''excel''
   \<and> get_field (form ex_relational) ''type'' \<noteq> JStr ''api''
   \<and> (\<exists>r s. next_step True True ex_relational = Inr ([Req_check r], s))
   \<and> activeStep ex_relational = 1
   \<and> activeStep (deliver (fst (next_check_then True [] ex_relational)) ex_relational) = 2
   \<and> get_field (form ex_uploaded) ''type'' = JStr ''excel''
   \<and> next_step True True ex_uploaded = Inr ([Emit_changeActiveStep 2], ex_uploaded)
   \<and> get_field (form ex_api_state) ''type'' = JStr ''api''
   \<and> (\<exists>r s. next_step True True ex_api_state = Inr ([Req_fetchExcelFromApi r], s))
   \<and> concatenateMode ex_concat
   \<and> (\<exists>effs s. next_step2 True True (Some ex_merged) True (Some ex_merged) True ex_concat = Inr (effs, s)
         \<and> \<not> list_ex emits_step effs)"
proof -
  have t: "get_field (form ex_relational) ''type'' = JStr ''mysql''"
    "get_field (form ex_uploaded) ''type'' = JStr ''excel''"
    "get_field (form ex_api_state) ''type'' = JStr ''api''"
    by (simp_all add: wiz_eval alist_eval)
  have f: "\<not> checkLoading ex_relational" "activeStep ex_relational = 1"
    "excelUploadSuccess ex_uploaded" "activeStep ex_uploaded = 1"
    "\<not> uploadLoading ex_api_state" "concatenateMode ex_concat"
    by (simp_all add: wiz_eval)
  note g = step_gating [where st = ex_relational and formEl = True and valid = True and requestObj = "[]"]
  note x = step_gating [where st = ex_uploaded and formEl = True and valid = True]
  note a = step_gating [where st = ex_api_state and formEl = True and valid = True]
  note c = step_gating [where st = ex_concat and formEl = True and valid = True and merged = "Some ex_merged"
      and confirmed = True and merged_again = "Some ex_merged" and added = True]
  have 1: "\<exists>r s. next_step True True ex_relational = Inr ([Req_check r], s)"
    using g t f by simp
  have 2: "activeStep (deliver (fst (next_check_then True [] ex_relational)) ex_relational) = 2"
    using g f by blast
  have 3: "next_step True True ex_uploaded = Inr ([Emit_changeActiveStep 2], ex_uploaded)"
    using x t f by simp
  have 4: "\<exists>r s. next_step True True ex_api_state = Inr ([Req_fetchExcelFromApi r], s)"
    using a t f by simp
  obtain effs s where
    e: "next_step2 True True (Some ex_merged) True (Some ex_merged) True ex_concat = Inr (effs, s)"
    by (simp add: next_step2_def save2_def buildConf2_eq wiz_eval alist_eval trim_def
          is_space_def Let_def)
  have 5: "\<exists>effs s. next_step2 True True (Some ex_merged) True (Some ex_merged) True ex_concat = Inr (effs, s)
         \<and> \<not> list_ex emits_step effs"
    using c f e by blast
  from t f 1 2 3 4 5 show ?thesis by simp
qed


text \<open>
  Claim C8, as stated, fails for a name that is not empty but blank: with two files and the
  name of one space, \<open>next\<close> shows the warning about the name and sends nothing.
\<close>

theorem blank_name_counterexample:
  "concatenateMode ex_blank \<and> length (multipleFiles ex_blank) = 2
   \<and> get_field (form ex_blank) ''name'' = JStr '' '' \<and> '' '' \<noteq> ''''
   \<and> next_step2 True True (Some ex_merged) True (Some ex_merged) True ex_blank =
       Inr ([Message ''warning'' ''enter the data source name''], ex_blank)"
  by (simp add: next_step2_def wiz_eval alist_eval trim_def is_space_def)


text \<open>
  Claim C8, amended. In concatenation mode \<open>next\<close> answers fewer than two files with the
  warning to select at least two and sends no request; two or more files and a name that is
  empty or white space only with the warning to enter a name, again without a request. With
  two or more files and any other name it sends the merge request; when that fails it shows
  an error, and when it succeeds it stores the merged file, selects its sheets and runs
  \<open>save\<close>, never emitting a step change. With a valid form and a successful second merge,
  \<open>save\<close> sends \<open>add\<close> with exactly the sheets of the merged file as tables.
\<close>

theorem concatenation_guard:
  "concatenateMode st \<longrightarrow>
     (length (multipleFiles st) < 2 \<longrightarrow>
        next_step2 True valid merged confirmed merged_again added st =
          Inr ([Message ''warning'' ''select at least two files to merge''], st))
   \<and> (2 \<le> length (multipleFiles st) \<and> blank_name (get_field (form st) ''name'') = Inr True \<longrightarrow>
        next_step2 True valid merged confirmed merged_again added st =
          Inr ([Message ''warning'' ''enter the data source name''], st))
   \<and> (2 \<le> length (multipleFiles st) \<and> blank_name (get_field (form st) ''name'') = Inr False \<longrightarrow>
        (merged = None \<longrightarrow>
           next_step2 True valid merged confirmed merged_again added st =
             Inr ([concatenate_request st, Message ''error'' ''merging the files failed'',
                   Console_error ''merging the files failed''], st))
      \<and> (\<forall>response. merged = Some response \<longrightarrow>
           (\<exists>effs st'.
              save2 True valid confirmed merged_again added (merged_state response st) = Inr (effs, st')
              \<and> next_step2 True valid merged confirmed merged_again added st =
                  Inr (concatenate_request st # effs, st')
              \<and> \<not> list_ex emits_step effs))
      \<and> (\<forall>response again. merged = Some response \<and> valid \<and> merged_again = Some again \<longrightarrow>
           (\<exists>requestObj st'.
              next_step2 True valid merged confirmed merged_again added st =
                Inr ([concatenate_request st, concatenate_request st, Req_add requestObj]
                     @ (if added
                        then [Message ''success'' ''concatenated data source created'', Emit_refresh]
                        else [Console_error ''creating the concatenated data source failed'',
                              Message ''error'' ''creating the concatenated data source failed'']),
                     st')
              \<and> get_field requestObj ''tables'' = JArr (map table_json (r_sheets again)))))"
proof
  assume cm: "concatenateMode st"
  have few: "length (multipleFiles st) < 2 \<longrightarrow>
        next_step2 True valid merged confirmed merged_again added st =
          Inr ([Message ''warning'' ''select at least two files to merge''], st)"
    using cm by (simp add: next_step2_def)
  have blank: "2 \<le> length (multipleFiles st) \<and> blank_name (get_field (form st) ''name'') = Inr True \<longrightarrow>
        next_step2 True valid merged confirmed merged_again added st =
          Inr ([Message ''warning'' ''enter the data source name''], st)"
    using cm by (simp add: next_step2_def)
  have go: "(merged = None \<longrightarrow>
           next_step2 True valid merged confirmed merged_again added st =
             Inr ([concatenate_request st, Message ''error'' ''merging the files failed'',
                   Console_error ''merging the files failed''], st))
      \<and> (\<forall>response. merged = Some response \<longrightarrow>
           (\<exists>effs st'.
              save2 True valid confirmed merged_again added (merged_state response st) = Inr (effs, st')
              \<and> next_step2 True valid merged confirmed merged_again added st =
                  Inr (concatenate_request st # effs, st')
              \<and> \<not> list_ex emits_step effs))
      \<and> (\<forall>response again. merged = Some response \<and> valid \<and> merged_again = Some again \<longrightarrow>
           (\<exists>requestObj st'.
              next_step2 True valid merged confirmed merged_again added st =
                Inr ([concatenate_request st, concatenate_request st, Req_add requestObj]
                     @ (if added
                        then [Message ''success'' ''concatenated data source created'', Emit_refresh]
                        else [Console_error ''creating the concatenated data source failed'',
                              Message ''error'' ''creating the concatenated data source failed'']),
                     st')
              \<and> get_field requestObj ''tables'' = JArr (map table_json (r_sheets again))))"
    if two: "2 \<le> length (multipleFiles st)" and nb: "blank_name (get_field (form st) ''name'') = Inr False"
  proof (intro conjI allI impI)
    assume "merged = None"
    then show "next_step2 True valid merged confirmed merged_again added st =
             Inr ([concatenate_request st, Message ''error'' ''merging the files failed'',
                   Console_error ''merging the files failed''], st)"
      using cm two nb by (simp add: next_step2_def)
  next
    fix response assume m: "merged = Some response"
    have cm1: "concatenateMode (merged_state response st)"
      using cm by (simp add: merged_state_def)
    from save2_concat_total [OF cm1] obtain effs st' where
      s: "save2 True valid confirmed merged_again added (merged_state response st) = Inr (effs, st')"
      by blast
    have n: "next_step2 True valid merged confirmed merged_again added st =
                  Inr (concatenate_request st # effs, st')"
      using cm two nb m s by (simp add: next_step2_def merged_state_def Let_def)
    have "\<not> list_ex emits_step effs"
      using save2_concat_no_step [OF cm1 s] .
    with s n show "\<exists>effs st'.
              save2 True valid confirmed merged_again added (merged_state response st) = Inr (effs, st')
              \<and> next_step2 True valid merged confirmed merged_again added st =
                  Inr (concatenate_request st # effs, st')
              \<and> \<not> list_ex emits_step effs" by blast
  next
    fix response again
    assume a: "merged = Some response \<and> valid \<and> merged_again = Some again"
    have cm1: "concatenateMode (merged_state response st)"
      and two1: "2 \<le> length (multipleFiles (merged_state response st))"
      and cr: "concatenate_request (merged_state response st) = concatenate_request st"
      using cm two by (simp_all add: merged_state_def concatenate_request_def)
    from save2_concat_add [OF cm1 two1, of confirmed again added] obtain requestObj st' where
      s: "save2 True True confirmed (Some again) added (merged_state response st) =
             Inr ([concatenate_request st, Req_add requestObj]
                  @ (if added
                     then [Message ''success'' ''concatenated data source created'', Emit_refresh]
                     else [Console_error ''creating the concatenated data source failed'',
                           Message ''error'' ''creating the concatenated data source failed'']),
                  st')"
      and t: "get_field requestObj ''tables'' = JArr (map table_json (r_sheets again))"
      unfolding cr by blast
    have "next_step2 True valid merged confirmed merged_again added st =
                Inr ([concatenate_request st, concatenate_request st, Req_add requestObj]
                     @ (if added
                        then [Message ''success'' ''concatenated data source created'', Emit_refresh]
                        else [Console_error ''creating the concatenated data source failed'',
                              Message ''error'' ''creating the concatenated data source failed'']),
                     st')"
      using cm two nb a s by (simp add: next_step2_def merged_state_def Let_def)
    with t show "\<exists>requestObj st'.
              next_step2 True valid merged confirmed merged_again added st =
                Inr ([concatenate_request st, concatenate_request st, Req_add requestObj]
                     @ (if added
                        then [Message ''success'' ''concatenated data source created'', Emit_refresh]
                        else [Console_error ''creating the concatenated data source failed'',
                              Message ''error'' ''creating the concatenated data source failed'']),
                     st')
              \<and> get_field requestObj ''tables'' = JArr (map table_json (r_sheets again))" by blast
  qed
  from few blank go show "(length (multipleFiles st) < 2 \<longrightarrow>
        next_step2 True valid merged confirmed merged_again added st =
          Inr ([Message ''warning'' ''select at least two files to merge''], st))
   \<and> (2 \<le> length (multipleFiles st) \<and> blank_name (get_field (form st) ''name'') = Inr True \<longrightarrow>
        next_step2 True valid merged confirmed merged_again added st =
          Inr ([Message ''warning'' ''enter the data source name''], st))
   \<and> (2 \<le> length (multipleFiles st) \<and> blank_name (get_field (form st) ''name'') = Inr False \<longrightarrow>
        (merged = None \<longrightarrow>
           next_step2 True valid merged confirmed merged_again added st =
             Inr ([concatenate_request st, Message ''error'' ''merging the files failed'',
                   Console_error ''merging the files failed''], st))
      \<and> (\<forall>response. merged = Some response \<longrightarrow>
           (\<exists>effs st'.
              save2 True valid confirmed merged_again added (merged_state response st) = Inr (effs, st')
              \<and> next_step2 True valid merged confirmed merged_again added st =
                  Inr (concatenate_request st # effs, st')
              \<and> \<not> list_ex emits_step effs))
      \<and> (\<forall>response again. merged = Some response \<and> valid \<and> merged_again = Some again \<longrightarrow>
           (\<exists>requestObj st'.
              next_step2 True valid merged confirmed merged_again added st =
                Inr ([concatenate_request st, concatenate_request st, Req_add requestObj]
                     @ (if added
                        then [Message ''success'' ''concatenated data source created'', Emit_refresh]
                        else [Console_error ''creating the concatenated data source failed'',
                              Message ''error'' ''creating the concatenated data source failed'']),
                     st')
              \<and> get_field requestObj ''tables'' = JArr (map table_json (r_sheets again)))))"
    by blast
qed


theorem concatenation_guard_witness:
  "concatenateMode ex_concat \<and> 2 \<le> length (multipleFiles ex_concat)
   \<and> blank_name (get_field (form ex_concat) ''name'') = Inr False
   \<and> (\<exists>requestObj st'.
         next_step2 True True (Some ex_merged) True (Some ex_merged) True ex_concat =
           Inr ([concatenate_request ex_concat, concatenate_request ex_concat, Req_add requestObj,
                 Message ''success'' ''concatenated data source created'', Emit_refresh], st')
         \<and> get_field requestObj ''tables''
             = JArr [JObj [(''table_name'', JStr ''merged''), (''table_comment'', JStr '''')]])
   \<and> length (multipleFiles (ex_concat\<lparr>multipleFiles := [ex_file ''a.csv'']\<rparr>)) < 2
   \<and> next_step2 True True (Some ex_merged) True (Some ex_merged) True
        (ex_concat\<lparr>multipleFiles := [ex_file ''a.csv'']\<rparr>)
       = Inr ([Message ''warning'' ''select at least two files to merge''],
              ex_concat\<lparr>multipleFiles := [ex_file ''a.csv'']\<rparr>)"
proof -
  have h: "concatenateMode ex_concat" "2 \<le> length (multipleFiles ex_concat)"
    "blank_name (get_field (form ex_concat) ''name'') = Inr False"
    "concatenateMode (ex_concat\<lparr>multipleFiles := [ex_file ''a.csv'']\<rparr>)"
    "length (multipleFiles (ex_concat\<lparr>multipleFiles := [ex_file ''a.csv'']\<rparr>)) < 2"
    by (simp_all add: wiz_eval alist_eval trim_def is_space_def)
  have s: "r_sheets ex_merged = [tbl ''merged'']" by (simp add: ex_merged_def)
  note a = concatenation_guard [where st = ex_concat and valid = True and merged = "Some ex_merged"
      and confirmed = True and merged_again = "Some ex_merged" and added = True]
  note b = concatenation_guard [where st = "ex_concat\<lparr>multipleFiles := [ex_file ''a.csv'']\<rparr>" and valid = True
      and merged = "Some ex_merged" and confirmed = True and merged_again = "Some ex_merged"
      and added = True]
  have 1: "\<exists>requestObj st'.
         next_step2 True True (Some ex_merged) True (Some ex_merged) True ex_concat =
           Inr ([concatenate_request ex_concat, concatenate_request ex_concat, Req_add requestObj,
                 Message ''success'' ''concatenated data source created'', Emit_refresh], st')
         \<and> get_field requestObj ''tables''
             = JArr [JObj [(''table_name'', JStr ''merged''), (''table_comment'', JStr '''')]]"
    using a h by (simp add: s table_json_def tbl_def)
  have 2: "next_step2 True True (Some ex_merged) True (Some ex_merged) True
        (ex_concat\<lparr>multipleFiles := [ex_file ''a.csv'']\<rparr>)
       = Inr ([Message ''warning'' ''select at least two files to merge''],
              ex_concat\<lparr>multipleFiles := [ex_file ''a.csv'']\<rparr>)"
    using b h by blast
  from h 1 2 show ?thesis by blast
qed

section \<open>What the record reveals: proofs\<close>

lemma buildConf_api:
  assumes "get_field f ''type'' = JStr ''api''"
  shows "buildConf f =
           (case successStatusCodes_of f of
              Inl e \<Rightarrow> Inl e
            | Inr codes \<Rightarrow>
                Inr (built_api f codes, delete_fields api_deleted (clone_members (built_api f codes))))"
  using assms
  by (simp add: buildConf_def built_api_def Let_def encrypted_def JSON_stringify_JObj
        JSON_stringify_JArr copy_without_eq split: sum.splits)

lemma get_field_built_relational:
  "get_field (clone_members (built_relational f)) ''configuration'' =
     JBlob (JText (JObj (clone_members (relational_configuration f))))"
  by (simp add: built_relational_def get_field_clone_members_defined get_field_set_field)

lemma get_field_built_api:
  "get_field (clone_members (built_api f codes)) ''configuration'' =
     JBlob (JText (JObj (clone_members (api_configuration f codes (certificateList_of f)))))"
  "get_field (clone_members (built_api f codes)) ''certificate'' =
     JText (JArr (clone_elems (certificateList_of f)))"
  by (simp_all add: built_api_def get_field_clone_members_defined get_field_set_field)







section \<open>Side effects of the builder: proofs\<close>

lemma check_relational:
  "get_field (form st) ''type'' \<noteq> JStr ''api'' \<Longrightarrow>
   check st = Inr ([Req_check (delete_fields relational_deleted
                                 (clone_members (built_relational (form st))))],
                   st\<lparr>form := built_relational (form st)\<rparr>)"
  by (simp add: check_def buildConf_relational)


text \<open>
  Claim C10, as stated, fails for \<open>check\<close> on an API form: the first component's
  \<open>check\<close> sends the API test and returns without calling \<open>buildConf\<close>, so the form
  keeps its configuration (here the empty string).
\<close>

theorem check_api_counterexample:
  "get_field (form ex_api_state) ''configuration'' = JStr ''''
   \<and> check ex_api_state = Inr ([Req_testApiExcel (api_request (form ex_api_state))], ex_api_state)"
  by (simp add: check_def ex_api_state_def ex_api_def init_state_def alist_eval)


text \<open>
  Claim C10, amended. Whenever \<open>buildConf\<close> returns, it has overwritten the form's
  \<open>configuration\<close> with the blob of the freshly built configuration and, for the type
  \<open>api\<close>, the form's \<open>certificate\<close> with the plain text of the certificate list; the
  returned copy holds the same blob. \<open>check\<close> for a type other than \<open>api\<close> and
  \<open>getSchema\<close> send the copy and leave the form rewritten in this way
  (\<open>getSchema\<close> also empties the schema list). For every form of the type \<open>api\<close> the
  first component's \<open>check\<close> sends the API test and leaves the whole state, the form
  included, as it was. The second component's \<open>buildConf\<close>, \<open>check\<close> and \<open>getSchema\<close>
  rewrite the form for every form.
\<close>

theorem buildConf_rewrites_form:
  "(buildConf f = Inr (f', r) \<longrightarrow>
      (get_field f ''type'' \<noteq> JStr ''api'' \<longrightarrow>
         f' = set_field ''configuration''
                (JBlob (JText (JObj (clone_members (relational_configuration f))))) f)
    \<and> (get_field f ''type'' = JStr ''api'' \<longrightarrow>
         (\<exists>codes. successStatusCodes_of f = Inr codes
            \<and> f' = set_field ''certificate'' (JText (JArr (clone_elems (certificateList_of f))))
                     (set_field ''configuration''
                        (JBlob (JText (JObj (clone_members
                           (api_configuration f codes (certificateList_of f)))))) f)))
    \<and> get_field r ''configuration'' = get_field f' ''configuration'')
   \<and> (get_field (form st) ''type'' \<noteq> JStr ''api'' \<longrightarrow>
        check st = Inr ([Req_check (delete_fields relational_deleted
                                      (clone_members (built_relational (form st))))],
                        st\<lparr>form := built_relational (form st)\<rparr>))
   \<and> (get_field (form st) ''type'' = JStr ''api'' \<longrightarrow>
        check st = Inr ([Req_testApiExcel (api_request (form st))], st))
   \<and> (buildConf (form st) = Inr (g', q) \<longrightarrow>
        getSchema st = Inr ([Req_getSchema q], st\<lparr>schemaList := [], form := g'\<rparr>))
   \<and> buildConf2 f = Inr (built2 f, delete_fields relational_deleted2 (clone_members (built2 f)))
   \<and> check2 st = Inr ([Req_check (delete_fields relational_deleted2
                                     (clone_members (built2 (form st))))],
                       st\<lparr>form := built2 (form st)\<rparr>)
   \<and> getSchema2 st = Inr ([Req_getSchema (delete_fields relational_deleted2
                                             (clone_members (built2 (form st))))],
                           st\<lparr>schemaList := [], form := built2 (form st)\<rparr>)"
proof -
  have b: "buildConf f = Inr (f', r) \<longrightarrow>
      (get_field f ''type'' \<noteq> JStr ''api'' \<longrightarrow>
         f' = set_field ''configuration''
                (JBlob (JText (JObj (clone_members (relational_configuration f))))) f)
    \<and> (get_field f ''type'' = JStr ''api'' \<longrightarrow>
         (\<exists>codes. successStatusCodes_of f = Inr codes
            \<and> f' = set_field ''certificate'' (JText (JArr (clone_elems (certificateList_of f))))
                     (set_field ''configuration''
                        (JBlob (JText (JObj (clone_members
                           (api_configuration f codes (certificateList_of f)))))) f)))
    \<and> get_field r ''configuration'' = get_field f' ''configuration''"
  proof
    assume h: "buildConf f = Inr (f', r)"
    show "(get_field f ''type'' \<noteq> JStr ''api'' \<longrightarrow>
         f' = set_field ''configuration''
                (JBlob (JText (JObj (clone_members (relational_configuration f))))) f)
    \<and> (get_field f ''type'' = JStr ''api'' \<longrightarrow>
         (\<exists>codes. successStatusCodes_of f = Inr codes
            \<and> f' = set_field ''certificate'' (JText (JArr (clone_elems (certificateList_of f))))
                     (set_field ''configuration''
                        (JBlob (JText (JObj (clone_members
                           (api_configuration f codes (certificateList_of f)))))) f)))
    \<and> get_field r ''configuration'' = get_field f' ''configuration''"
    proof (cases "get_field f ''type'' = JStr ''api''")
      case True
      with h obtain codes where c: "successStatusCodes_of f = Inr codes"
        and f': "f' = built_api f codes"
        and r: "r = delete_fields api_deleted (clone_members (built_api f codes))"
        by (auto simp: buildConf_api split: sum.splits)
      have "get_field r ''configuration'' = get_field f' ''configuration''"
        by (simp add: r f' get_field_delete_fields api_deleted_def get_field_built_api)
           (simp add: built_api_def get_field_set_field)
      with True c f' show ?thesis by (auto simp: built_api_def)
    next
      case False
      with h have f': "f' = built_relational f"
        and r: "r = delete_fields relational_deleted (clone_members (built_relational f))"
        by (auto simp: buildConf_relational)
      have "get_field r ''configuration'' = get_field f' ''configuration''"
        by (simp add: r f' get_field_delete_fields relational_deleted_def get_field_built_relational)
           (simp add: built_relational_def get_field_set_field)
      with False f' show ?thesis by (auto simp: built_relational_def)
    qed
  qed
  have c: "get_field (form st) ''type'' \<noteq> JStr ''api'' \<longrightarrow>
        check st = Inr ([Req_check (delete_fields relational_deleted
                                      (clone_members (built_relational (form st))))],
                        st\<lparr>form := built_relational (form st)\<rparr>)"
    using check_relational by blast
  have ca: "get_field (form st) ''type'' = JStr ''api'' \<longrightarrow>
        check st = Inr ([Req_testApiExcel (api_request (form st))], st)"
    by (simp add: check_def)
  have g: "buildConf (form st) = Inr (g', q) \<longrightarrow>
        getSchema st = Inr ([Req_getSchema q], st\<lparr>schemaList := [], form := g'\<rparr>)"
    by (simp add: getSchema_def)
  have b2: "buildConf2 f = Inr (built2 f, delete_fields relational_deleted2 (clone_members (built2 f)))"
    by (rule buildConf2_eq)
  have c2: "check2 st = Inr ([Req_check (delete_fields relational_deleted2
                                     (clone_members (built2 (form st))))],
                       st\<lparr>form := built2 (form st)\<rparr>)"
    by (simp add: check2_def buildConf2_eq)
  have g2: "getSchema2 st = Inr ([Req_getSchema (delete_fields relational_deleted2
                                             (clone_members (built2 (form st))))],
                           st\<lparr>schemaList := [], form := built2 (form st)\<rparr>)"
    by (simp add: getSchema2_def buildConf2_eq)
  show ?thesis
    apply (intro conjI)
    apply (rule b) apply (rule c) apply (rule ca) apply (rule g)
    apply (rule b2) apply (rule c2) apply (rule g2)
    done
qed


theorem buildConf_rewrites_form_witness:
  "get_field (form ex_relational) ''type'' \<noteq> JStr ''api''
   \<and> get_field (form ex_relational) ''configuration'' = JStr ''''
   \<and> (\<exists>r st'. check ex_relational = Inr ([Req_check r], st')
         \<and> get_field (form st') ''configuration'' =
             JBlob (JText (JObj (clone_members (relational_configuration (form ex_relational))))))
   \<and> (\<exists>r st'. getSchema ex_relational = Inr ([Req_getSchema r], st')
         \<and> get_field (form st') ''configuration'' =
             JBlob (JText (JObj (clone_members (relational_configuration (form ex_relational))))))
   \<and> get_field (form ex_api_state) ''type'' = JStr ''api''
   \<and> check ex_api_state = Inr ([Req_testApiExcel (api_request (form ex_api_state))], ex_api_state)"
proof -
  let ?f = "form ex_relational"
  have t: "get_field ?f ''type'' \<noteq> JStr ''api''"
    "get_field ?f ''configuration'' = JStr ''''"
    by (simp_all add: ex_relational_def init_state_def alist_eval)
  have m: "buildConf ?f = Inr (built_relational ?f,
       delete_fields relational_deleted (clone_members (built_relational ?f)))"
    using t by (simp add: buildConf_relational)
  note i = buildConf_rewrites_form [where f = ?f and st = ex_relational and f' = "built_relational ?f"
      and r = "delete_fields relational_deleted (clone_members (built_relational ?f))"
      and g' = "built_relational ?f"
      and q = "delete_fields relational_deleted (clone_members (built_relational ?f))"]
  have k: "get_field (built_relational ?f) ''configuration'' =
             JBlob (JText (JObj (clone_members (relational_configuration ?f))))"
    by (simp add: built_relational_def get_field_set_field)
  have 1: "\<exists>r st'. check ex_relational = Inr ([Req_check r], st')
         \<and> get_field (form st') ''configuration'' =
             JBlob (JText (JObj (clone_members (relational_configuration ?f))))"
    using i t m k by simp
  have 2: "\<exists>r st'. getSchema ex_relational = Inr ([Req_getSchema r], st')
         \<and> get_field (form st') ''configuration'' =
             JBlob (JText (JObj (clone_members (relational_configuration ?f))))"
    using i t m k by simp
  have a: "get_field (form ex_api_state) ''type'' = JStr ''api''"
    by (simp add: ex_api_state_def ex_api_def init_state_def alist_eval)
  have 3: "check ex_api_state = Inr ([Req_testApiExcel (api_request (form ex_api_state))], ex_api_state)"
    using buildConf_rewrites_form [where st = ex_api_state] a by blast
  from t 1 2 a 3 show ?thesis by blast
qed

section \<open>Loading what the builder has built: proofs\<close>

lemma truthy_json_member: "truthy (json_member v) = truthy v"
  by (simp add: json_member_def truthy_clone)

lemma json_member_truthy: "truthy v \<Longrightarrow> json_member v = clone v"
  by (auto simp: json_member_def)

lemma clone_eq_JStr: "clone v = JStr s \<longleftrightarrow> v = JStr s"
  by (cases v) auto

lemma json_member_eq_JStr: "json_member v = JStr s \<longleftrightarrow> v = JStr s"
  by (auto simp: json_member_def clone_eq_JStr)

lemma distinct_set_field: "distinct (map fst ob) \<Longrightarrow> distinct (map fst (set_field k v ob))"
  by (simp add: set_field_def distinct_update)

lemma clone_elems_append: "clone_elems (xs @ ys) = clone_elems xs @ clone_elems ys"
  by (induction xs) simp_all

lemma clone_certificate_entry:
  "clone_elems (certificate_entry target k v) =
     (if truthy k \<and> truthy v
      then [JObj [(''target'', JStr target), (''key'', clone k), (''value'', clone v)]] else [])"
  by (auto simp: certificate_entry_def)

lemma form_watch_keywords: "form (watch_keywords s) = form s"
  by (simp add: watch_keywords_def Let_def)

text \<open>The record of a relational form.\<close>

lemma relational_record:
  assumes "distinct (map fst f)" "get_field f ''type'' \<noteq> JStr ''api''"
  shows "get_field (delete_fields relational_deleted (clone_members (built_relational f)))
           ''configuration'' = JBlob (JText (JObj (clone_members (relational_configuration f))))"
    and "get_field (delete_fields relational_deleted (clone_members (built_relational f)))
           ''type'' \<noteq> JStr ''api''"
proof -
  let ?r = "delete_fields relational_deleted (clone_members (built_relational f))"
  show "get_field ?r ''configuration'' = JBlob (JText (JObj (clone_members (relational_configuration f))))"
    by (simp add: get_field_delete_fields relational_deleted_def get_field_built_relational)
  have d: "distinct (map fst (built_relational f))"
    using assms(1) by (simp add: built_relational_def distinct_set_field)
  have "get_field ?r ''type'' = json_member (get_field f ''type'')"
    by (simp add: get_field_delete_fields relational_deleted_def get_field_clone_members [OF d])
       (simp add: built_relational_def get_field_set_field)
  then show "get_field ?r ''type'' \<noteq> JStr ''api''"
    using assms(2) by (simp add: json_member_eq_JStr)
qed

lemma api_record:
  assumes "get_field f ''type'' = JStr ''api''"
  shows "get_field (delete_fields api_deleted (clone_members (built_api f codes))) ''configuration'' =
           JBlob (JText (JObj (clone_members (api_configuration f codes (certificateList_of f)))))"
    and "get_field (delete_fields api_deleted (clone_members (built_api f codes))) ''certificate'' =
           JText (JArr (clone_elems (certificateList_of f)))"
    and "get_field (delete_fields api_deleted (clone_members (built_api f codes))) ''type'' = JStr ''api''"
proof -
  let ?r = "delete_fields api_deleted (clone_members (built_api f codes))"
  show "get_field ?r ''configuration'' =
           JBlob (JText (JObj (clone_members (api_configuration f codes (certificateList_of f)))))"
    "get_field ?r ''certificate'' = JText (JArr (clone_elems (certificateList_of f)))"
    by (simp_all add: get_field_delete_fields api_deleted_def get_field_built_api)
  have "get_field (built_api f codes) ''type'' = JStr ''api''"
    using assms(1) by (simp add: built_api_def get_field_set_field)
  then show "get_field ?r ''type'' = JStr ''api''"
    by (simp add: get_field_delete_fields api_deleted_def get_field_clone_members_defined)
qed

text \<open>Reading the members of a stored configuration.\<close>

lemma distinct_relational_configuration: "distinct (map fst (relational_configuration f))"
  by (simp add: relational_configuration_def)

lemma distinct_api_configuration: "distinct (map fst (api_configuration f codes certs))"
  by (simp add: api_configuration_def)

lemma member_relational:
  "get_field (clone_members (relational_configuration f)) k =
     json_member (get_field (relational_configuration f) k)"
  by (simp add: get_field_clone_members [OF distinct_relational_configuration])

lemma member_api:
  "get_field (clone_members (api_configuration f codes certs)) k =
     json_member (get_field (api_configuration f codes certs) k)"
  by (simp add: get_field_clone_members [OF distinct_api_configuration])

lemma relational_configuration_fields:
  "get_field (relational_configuration f) ''host'' = get_field f ''host''"
  "get_field (relational_configuration f) ''port'' = get_field f ''port''"
  "get_field (relational_configuration f) ''username'' = get_field f ''username''"
  "get_field (relational_configuration f) ''password'' = get_field f ''password''"
  "get_field (relational_configuration f) ''database'' = get_field f ''database''"
  "get_field (relational_configuration f) ''extraJdbc'' = get_field f ''extraJdbc''"
  "get_field (relational_configuration f) ''dbSchema'' = get_field f ''dbSchema''"
  "get_field (relational_configuration f) ''filename'' = get_field f ''filename''"
  "get_field (relational_configuration f) ''sheets'' = get_field f ''sheets''"
  "get_field (relational_configuration f) ''mode'' = get_field f ''mode''"
  "get_field (relational_configuration f) ''timeout'' = get_field f ''timeout''"
  "get_field (relational_configuration f) ''originType'' = js_or (get_field f ''originType'') (JStr ''local'')"
  by (simp_all add: relational_configuration_def get_field_def)

lemma api_configuration_fields:
  "get_field (api_configuration f codes certs) ''endpoint'' = get_field f ''endpoint''"
  "get_field (api_configuration f codes certs) ''method'' = js_or (get_field f ''method'') (JStr ''POST'')"
  "get_field (api_configuration f codes certs) ''requestBody'' = js_or (get_field f ''requestBody'') (JStr '''')"
  "get_field (api_configuration f codes certs) ''successStatusCodes'' = JArr codes"
  "get_field (api_configuration f codes certs) ''certificateList'' = JArr certs"
  "get_field (api_configuration f codes certs) ''timeout'' = js_or (get_field f ''timeout'') (JNum 30)"
  "get_field (api_configuration f codes certs) ''originType'' = JStr ''api''"
  by (simp_all add: api_configuration_def get_field_def)

text \<open>Loading the record of a relational form.\<close>

lemma load_configuration_relational:
  assumes "distinct (map fst f)" "get_field f ''type'' \<noteq> JStr ''api''"
  shows "\<exists>g'. load_configuration
                 (delete_fields relational_deleted (clone_members (built_relational f))) g
               = Inr (g', [])
           \<and> (\<forall>k \<in> set [''host'', ''port'', ''username'', ''password'', ''database'',
                         ''extraJdbc'', ''dbSchema'', ''filename'', ''sheets'', ''mode''].
                 get_field g' k = json_member (get_field f k))
           \<and> get_field g' ''timeout'' =
               (if truthy (get_field f ''timeout'') then clone (get_field f ''timeout'')
                else JNum 30)
           \<and> get_field g' ''originType'' =
               (if truthy (get_field f ''originType'') then clone (get_field f ''originType'')
                else JStr ''local'')"
proof -
  let ?r = "delete_fields relational_deleted (clone_members (built_relational f))"
  let ?cfg = "JObj (clone_members (relational_configuration f))"
  obtain g' where g': "load_relational ?cfg g = Inr g'"
    by (simp add: load_relational_def has_props_def)
  have l: "load_configuration ?r g = Inr (g', [])"
    using g' by (simp add: load_configuration_def relational_record [OF assms])
  have m: "\<forall>k \<in> set [''host'', ''port'', ''username'', ''password'', ''database'',
                         ''extraJdbc'', ''dbSchema'', ''filename'', ''sheets'', ''mode''].
                 get_field g' k = json_member (get_field f k)"
    using g'
    by (auto simp: load_relational_def has_props_def get_field_set_field member_relational
          relational_configuration_fields)
  have t: "get_field g' ''timeout'' =
               (if truthy (get_field f ''timeout'') then clone (get_field f ''timeout'')
                else JNum 30)"
    using g'
    by (auto simp: load_relational_def has_props_def get_field_set_field member_relational
          relational_configuration_fields truthy_json_member json_member_truthy)
  have o: "get_field g' ''originType'' =
               (if truthy (get_field f ''originType'') then clone (get_field f ''originType'')
                else JStr ''local'')"
    using g'
    by (auto simp: load_relational_def has_props_def get_field_set_field member_relational
          relational_configuration_fields js_or_def json_member_def truthy_clone)
  from l m t o show ?thesis by blast
qed

text \<open>
  The status codes the builder stores are \<open>NaN\<close> or integers of magnitude below \<open>2^53\<close>,
  and joining them succeeds.
\<close>

lemma parseInt_number:
  "parseInt s = Some v \<Longrightarrow> v = JNaN \<or> (\<exists>n. v = JNum n \<and> safe_integer n)"
  by (auto simp: parseInt_def Let_def safe_integer_def split: if_splits)

lemma those_all:
  "those xs = Some ys \<Longrightarrow> \<forall>y \<in> set ys. Some y \<in> set xs"
  by (induction xs arbitrary: ys) (auto split: option.splits)

lemma successStatusCodes_numbers:
  assumes "successStatusCodes_of f = Inr codes"
  shows "\<forall>v \<in> set codes. v = JNaN \<or> (\<exists>n. v = JNum n \<and> safe_integer n)"
proof (cases "truthy (get_field f ''successStatusCodes'')")
  case False
  with assms show ?thesis by (auto simp: successStatusCodes_of_def safe_integer_def)
next
  case True
  with assms have s: "split_status_codes (get_field f ''successStatusCodes'') = Inr codes"
    by (simp add: successStatusCodes_of_def)
  then obtain str where
    "those (map (\<lambda>code. parseInt (trim code)) (split_on CHR '','' str)) = Some codes"
    by (cases "get_field f ''successStatusCodes''") (auto split: option.splits)
  from those_all [OF this]
  have a: "\<forall>v \<in> set codes. \<exists>code. parseInt code = Some v"
    by (fastforce simp: image_iff)
  show ?thesis
  proof
    fix v assume "v \<in> set codes"
    with a obtain code where "parseInt code = Some v" by blast
    then show "v = JNaN \<or> (\<exists>n. v = JNum n \<and> safe_integer n)"
      by (rule parseInt_number)
  qed
qed

lemma join_elem_number:
  "v = JNaN \<or> (\<exists>n. v = JNum n \<and> safe_integer n) \<Longrightarrow> \<exists>s. join_elem (clone v) = Some s"
  by auto

lemma join_numbers:
  "\<forall>v \<in> set xs. v = JNaN \<or> (\<exists>n. v = JNum n \<and> safe_integer n) \<Longrightarrow>
   \<exists>s. join_elems (clone_elems xs) = Some s"
proof (induction xs)
  case Nil
  show ?case by simp
next
  case (Cons x xs)
  from Cons.prems obtain a where a: "join_elem (clone x) = Some a"
    using join_elem_number [of x] by auto
  show ?case
  proof (cases xs)
    case Nil
    with a show ?thesis by simp
  next
    case (Cons y ys)
    from Cons.IH Cons.prems obtain b where "join_elems (clone_elems xs) = Some b" by auto
    with a Cons show ?thesis by simp
  qed
qed

text \<open>Running the loop over the certificate list the builder has stored.\<close>

lemma load_certs_certificateList:
  "\<exists>g'. load_certs (clone_elems (certificateList_of f)) g = (g', False)
     \<and> get_field g' ''headerKey'' =
         (if truthy (get_field f ''headerKey'') \<and> truthy (get_field f ''headerValue'')
          then clone (get_field f ''headerKey'') else get_field g ''headerKey'')
     \<and> get_field g' ''headerValue'' =
         (if truthy (get_field f ''headerKey'') \<and> truthy (get_field f ''headerValue'')
          then clone (get_field f ''headerValue'') else get_field g ''headerValue'')
     \<and> get_field g' ''cookieKey'' =
         (if truthy (get_field f ''cookieKey'') \<and> truthy (get_field f ''cookieValue'')
          then clone (get_field f ''cookieKey'') else get_field g ''cookieKey'')
     \<and> get_field g' ''cookieValue'' =
         (if truthy (get_field f ''cookieKey'') \<and> truthy (get_field f ''cookieValue'')
          then clone (get_field f ''cookieValue'') else get_field g ''cookieValue'')
     \<and> get_field g' ''paramKey'' =
         (if truthy (get_field f ''paramKey'') \<and> truthy (get_field f ''paramValue'')
          then clone (get_field f ''paramKey'') else get_field g ''paramKey'')
     \<and> get_field g' ''paramValue'' =
         (if truthy (get_field f ''paramKey'') \<and> truthy (get_field f ''paramValue'')
          then clone (get_field f ''paramValue'') else get_field g ''paramValue'')
     \<and> (\<forall>k. k \<notin> set [''headerKey'', ''headerValue'', ''cookieKey'', ''cookieValue'',
                       ''paramKey'', ''paramValue''] \<longrightarrow> get_field g' k = get_field g k)"
  by (simp add: certificateList_of_def clone_elems_append clone_certificate_entry has_props_def
        get_field_set_field get_field_def [of "[_, _, _]"])

lemma load_certs_snd: "snd (load_certs (clone_elems (certificateList_of f)) g) = False"
proof -
  from load_certs_certificateList [of f g] obtain g' where
    "load_certs (clone_elems (certificateList_of f)) g = (g', False)" by blast
  then show ?thesis by simp
qed

lemma load_certs_fst:
  "get_field (fst (load_certs (clone_elems (certificateList_of f)) g)) ''headerKey'' =
         (if truthy (get_field f ''headerKey'') \<and> truthy (get_field f ''headerValue'')
          then clone (get_field f ''headerKey'') else get_field g ''headerKey'')"
  "get_field (fst (load_certs (clone_elems (certificateList_of f)) g)) ''headerValue'' =
         (if truthy (get_field f ''headerKey'') \<and> truthy (get_field f ''headerValue'')
          then clone (get_field f ''headerValue'') else get_field g ''headerValue'')"
  "get_field (fst (load_certs (clone_elems (certificateList_of f)) g)) ''cookieKey'' =
         (if truthy (get_field f ''cookieKey'') \<and> truthy (get_field f ''cookieValue'')
          then clone (get_field f ''cookieKey'') else get_field g ''cookieKey'')"
  "get_field (fst (load_certs (clone_elems (certificateList_of f)) g)) ''cookieValue'' =
         (if truthy (get_field f ''cookieKey'') \<and> truthy (get_field f ''cookieValue'')
          then clone (get_field f ''cookieValue'') else get_field g ''cookieValue'')"
  "get_field (fst (load_certs (clone_elems (certificateList_of f)) g)) ''paramKey'' =
         (if truthy (get_field f ''paramKey'') \<and> truthy (get_field f ''paramValue'')
          then clone (get_field f ''paramKey'') else get_field g ''paramKey'')"
  "get_field (fst (load_certs (clone_elems (certificateList_of f)) g)) ''paramValue'' =
         (if truthy (get_field f ''paramKey'') \<and> truthy (get_field f ''paramValue'')
          then clone (get_field f ''paramValue'') else get_field g ''paramValue'')"
proof -
  from load_certs_certificateList [of f g] obtain g' where
    a: "load_certs (clone_elems (certificateList_of f)) g = (g', False)" and
    h0: "get_field g' ''headerKey'' =
         (if truthy (get_field f ''headerKey'') \<and> truthy (get_field f ''headerValue'')
          then clone (get_field f ''headerKey'') else get_field g ''headerKey'')" and
    h1: "get_field g' ''headerValue'' =
         (if truthy (get_field f ''headerKey'') \<and> truthy (get_field f ''headerValue'')
          then clone (get_field f ''headerValue'') else get_field g ''headerValue'')" and
    h2: "get_field g' ''cookieKey'' =
         (if truthy (get_field f ''cookieKey'') \<and> truthy (get_field f ''cookieValue'')
          then clone (get_field f ''cookieKey'') else get_field g ''cookieKey'')" and
    h3: "get_field g' ''cookieValue'' =
         (if truthy (get_field f ''cookieKey'') \<and> truthy (get_field f ''cookieValue'')
          then clone (get_field f ''cookieValue'') else get_field g ''cookieValue'')" and
    h4: "get_field g' ''paramKey'' =
         (if truthy (get_field f ''paramKey'') \<and> truthy (get_field f ''paramValue'')
          then clone (get_field f ''paramKey'') else get_field g ''paramKey'')" and
    h5: "get_field g' ''paramValue'' =
         (if truthy (get_field f ''paramKey'') \<and> truthy (get_field f ''paramValue'')
          then clone (get_field f ''paramValue'') else get_field g ''paramValue'')"
    by blast
  have e: "fst (load_certs (clone_elems (certificateList_of f)) g) = g'"
    by (simp only: a fst_conv)
  show "get_field (fst (load_certs (clone_elems (certificateList_of f)) g)) ''headerKey'' =
         (if truthy (get_field f ''headerKey'') \<and> truthy (get_field f ''headerValue'')
          then clone (get_field f ''headerKey'') else get_field g ''headerKey'')"
    unfolding e by (rule h0)
  show "get_field (fst (load_certs (clone_elems (certificateList_of f)) g)) ''headerValue'' =
         (if truthy (get_field f ''headerKey'') \<and> truthy (get_field f ''headerValue'')
          then clone (get_field f ''headerValue'') else get_field g ''headerValue'')"
    unfolding e by (rule h1)
  show "get_field (fst (load_certs (clone_elems (certificateList_of f)) g)) ''cookieKey'' =
         (if truthy (get_field f ''cookieKey'') \<and> truthy (get_field f ''cookieValue'')
          then clone (get_field f ''cookieKey'') else get_field g ''cookieKey'')"
    unfolding e by (rule h2)
  show "get_field (fst (load_certs (clone_elems (certificateList_of f)) g)) ''cookieValue'' =
         (if truthy (get_field f ''cookieKey'') \<and> truthy (get_field f ''cookieValue'')
          then clone (get_field f ''cookieValue'') else get_field g ''cookieValue'')"
    unfolding e by (rule h3)
  show "get_field (fst (load_certs (clone_elems (certificateList_of f)) g)) ''paramKey'' =
         (if truthy (get_field f ''paramKey'') \<and> truthy (get_field f ''paramValue'')
          then clone (get_field f ''paramKey'') else get_field g ''paramKey'')"
    unfolding e by (rule h4)
  show "get_field (fst (load_certs (clone_elems (certificateList_of f)) g)) ''paramValue'' =
         (if truthy (get_field f ''paramKey'') \<and> truthy (get_field f ''paramValue'')
          then clone (get_field f ''paramValue'') else get_field g ''paramValue'')"
    unfolding e by (rule h5)
qed

lemma load_certs_frame:
  "k \<notin> set [''headerKey'', ''headerValue'', ''cookieKey'', ''cookieValue'',
            ''paramKey'', ''paramValue''] \<Longrightarrow>
   get_field (fst (load_certs (clone_elems (certificateList_of f)) g)) k = get_field g k"
proof -
  assume k: "k \<notin> set [''headerKey'', ''headerValue'', ''cookieKey'', ''cookieValue'',
            ''paramKey'', ''paramValue'']"
  from load_certs_certificateList [of f g] obtain g' where
    a: "load_certs (clone_elems (certificateList_of f)) g = (g', False)" and
    b: "\<forall>k. k \<notin> set [''headerKey'', ''headerValue'', ''cookieKey'', ''cookieValue'',
                       ''paramKey'', ''paramValue''] \<longrightarrow> get_field g' k = get_field g k"
    by blast
  from b k have "get_field g' k = get_field g k" by blast
  then show ?thesis by (simp add: a)
qed

text \<open>Loading the record of an API form.\<close>

lemma load_configuration_api:
  assumes "get_field f ''type'' = JStr ''api''" "successStatusCodes_of f = Inr codes"
  shows "\<exists>g' s. load_configuration
                   (delete_fields api_deleted (clone_members (built_api f codes))) g
                 = Inr (g', [])
           \<and> join_elems (clone_elems codes) = Some s
           \<and> get_field g' ''successStatusCodes'' = JStr s
           \<and> get_field g' ''endpoint'' = json_member (get_field f ''endpoint'')
           \<and> get_field g' ''method'' =
               (if truthy (get_field f ''method'') then clone (get_field f ''method'')
                else JStr ''POST'')
           \<and> get_field g' ''requestBody'' =
               (if truthy (get_field f ''requestBody'') then clone (get_field f ''requestBody'')
                else JStr '''')
           \<and> get_field g' ''timeout'' =
               (if truthy (get_field f ''timeout'') then clone (get_field f ''timeout'')
                else JNum 30)
           \<and> get_field g' ''originType'' = JStr ''api''
           \<and> get_field g' ''headerKey'' =
               (if truthy (get_field f ''headerKey'') \<and> truthy (get_field f ''headerValue'')
                then clone (get_field f ''headerKey'') else get_field g ''headerKey'')
           \<and> get_field g' ''headerValue'' =
               (if truthy (get_field f ''headerKey'') \<and> truthy (get_field f ''headerValue'')
                then clone (get_field f ''headerValue'') else get_field g ''headerValue'')
           \<and> get_field g' ''cookieKey'' =
               (if truthy (get_field f ''cookieKey'') \<and> truthy (get_field f ''cookieValue'')
                then clone (get_field f ''cookieKey'') else get_field g ''cookieKey'')
           \<and> get_field g' ''cookieValue'' =
               (if truthy (get_field f ''cookieKey'') \<and> truthy (get_field f ''cookieValue'')
                then clone (get_field f ''cookieValue'') else get_field g ''cookieValue'')
           \<and> get_field g' ''paramKey'' =
               (if truthy (get_field f ''paramKey'') \<and> truthy (get_field f ''paramValue'')
                then clone (get_field f ''paramKey'') else get_field g ''paramKey'')
           \<and> get_field g' ''paramValue'' =
               (if truthy (get_field f ''paramKey'') \<and> truthy (get_field f ''paramValue'')
                then clone (get_field f ''paramValue'') else get_field g ''paramValue'')"
proof -
  let ?r = "delete_fields api_deleted (clone_members (built_api f codes))"
  from join_numbers [OF successStatusCodes_numbers [OF assms(2)]]
  obtain s where s: "join_elems (clone_elems codes) = Some s" by blast
  note rec = api_record [OF assms(1), of codes]
  note ev = load_configuration_def load_api_def load_certificate_def has_props_def Let_def
    member_api api_configuration_fields json_member_def [of "JArr _"] s split_beta
    load_certs_snd js_or_def [of "JArr _"]
  obtain g' logged where l: "load_configuration ?r g = Inr (g', logged)"
    by (simp add: rec ev)
  have lg: "logged = []"
    using l by (simp add: rec ev)
  have c: "get_field g' ''successStatusCodes'' = JStr s"
    "get_field g' ''endpoint'' = json_member (get_field f ''endpoint'')"
    "get_field g' ''originType'' = JStr ''api''"
    using l by (auto simp: rec ev load_certs_frame get_field_set_field)
  have m: "get_field g' ''method'' =
               (if truthy (get_field f ''method'') then clone (get_field f ''method'')
                else JStr ''POST'')"
    "get_field g' ''requestBody'' =
               (if truthy (get_field f ''requestBody'') then clone (get_field f ''requestBody'')
                else JStr '''')"
    "get_field g' ''timeout'' =
               (if truthy (get_field f ''timeout'') then clone (get_field f ''timeout'')
                else JNum 30)"
    using l
    by (auto simp: rec ev load_certs_frame get_field_set_field js_or_def json_member_def
          truthy_clone)
  have k: "get_field g' ''headerKey'' =
               (if truthy (get_field f ''headerKey'') \<and> truthy (get_field f ''headerValue'')
                then clone (get_field f ''headerKey'') else get_field g ''headerKey'')"
    "get_field g' ''headerValue'' =
               (if truthy (get_field f ''headerKey'') \<and> truthy (get_field f ''headerValue'')
                then clone (get_field f ''headerValue'') else get_field g ''headerValue'')"
    "get_field g' ''cookieKey'' =
               (if truthy (get_field f ''cookieKey'') \<and> truthy (get_field f ''cookieValue'')
                then clone (get_field f ''cookieKey'') else get_field g ''cookieKey'')"
    "get_field g' ''cookieValue'' =
               (if truthy (get_field f ''cookieKey'') \<and> truthy (get_field f ''cookieValue'')
                then clone (get_field f ''cookieValue'') else get_field g ''cookieValue'')"
    "get_field g' ''paramKey'' =
               (if truthy (get_field f ''paramKey'') \<and> truthy (get_field f ''paramValue'')
                then clone (get_field f ''paramKey'') else get_field g ''paramKey'')"
    "get_field g' ''paramValue'' =
               (if truthy (get_field f ''paramKey'') \<and> truthy (get_field f ''paramValue'')
                then clone (get_field f ''paramValue'') else get_field g ''paramValue'')"
    using l by (auto simp: rec ev load_certs_fst get_field_set_field)
  from l lg s c m k show ?thesis by blast
qed

lemma initForm_record:
  assumes "load_configuration item
             (set_field ''configuration'' (get_field item ''configuration'')
             (set_field ''type'' (get_field item ''type'')
             (set_field ''description'' (get_field item ''description'')
             (set_field ''name'' (get_field item ''name'')
             (set_field ''id'' (get_field item ''id'') (form st)))))) = Inr (g', logged)"
  shows "\<exists>effs st'. initForm (Some item) editTable st = Inr (effs, st') \<and> form st' = g'"
  using assms by (simp add: initForm_def Let_def form_watch_keywords)

lemma clone_plain:
  "json_plain v \<Longrightarrow> clone v = v"
  "json_plain_elems xs \<Longrightarrow> clone_elems xs = xs"
  "json_plain_members ms \<Longrightarrow> clone_members ms = ms"
  by (induction v and xs and ms rule: json_plain_json_plain_elems_json_plain_members.induct) auto

lemma json_member_plain: "v = JUndefined \<or> json_plain v \<Longrightarrow> json_member v = v"
  by (auto simp: json_member_def clone_plain)

lemmas load_eval = initForm_def load_configuration_def load_relational_def load_api_def
  load_certificate_def has_props_def watch_keywords_def

lemmas text_eval = parseInt_def safe_integer_def trim_def is_space_def digit_value_def is_digit_def
  digits_value_def
  show_int_def show_nat.simps char_of_def bit_Suc_0_iff


text \<open>
  Claim C4, as stated, fails: a MySQL form whose timeout is 0 is built into a record that
  stores 0, and loading that record sets the timeout to 30.
\<close>

theorem timeout_zero_counterexample:
  "get_field ex_timeout0 ''type'' = JStr ''mysql''
   \<and> get_field ex_timeout0 ''timeout'' = JNum 0
   \<and> (case buildConf ex_timeout0 of
        Inl e \<Rightarrow> False
      | Inr (f', r) \<Rightarrow>
          (case initForm (Some r) False ex_relational of
             Inl e \<Rightarrow> False
           | Inr (effs, st') \<Rightarrow> get_field (form st') ''timeout'' = JNum 30))"
  by (simp add: alist_eval build_eval load_eval wiz_eval ex_timeout0_def ex_mysql_def)


text \<open>
  Claim C4, amended. Let the form be an object (distinct keys) from which \<open>buildConf\<close>
  returns a record. Loading that record into any state succeeds, and the loaded form has:
  for a type other than \<open>api\<close>, in each of the ten fields from \<open>host\<close> to \<open>mode\<close> the
  JSON round trip of the pre-build value, in \<open>timeout\<close> the round trip of the pre-build
  value when that is truthy and 30 otherwise, in \<open>originType\<close> likewise with the default
  \<open>local\<close>; for the type \<open>api\<close>, in \<open>endpoint\<close> the round trip of the pre-build value, in
  \<open>method\<close>, \<open>requestBody\<close> and \<open>timeout\<close> the round trip of a truthy pre-build value and
  otherwise the defaults \<open>POST\<close>, the empty string and 30, in \<open>successStatusCodes\<close> the
  comma-joined parsed status codes (each \<open>NaN\<close>, which joins as the empty string, or an
  integer of magnitude below \<open>2^53\<close>; a form with a larger code is outside the model, for it
  \<open>buildConf\<close> is \<open>Inl OutsideModel\<close>), in \<open>originType\<close> the marker \<open>api\<close>, and for each of
  header, cookie and parameter the round trip of key and value when both were truthy;
  otherwise that key and value are left as they were in the state loaded into. The round
  trip of a value without \<open>undefined\<close> or \<open>NaN\<close> inside is the value itself (lemma
  \<open>json_member_plain\<close>).
\<close>

theorem load_after_build:
  assumes "distinct (map fst f)" and "buildConf f = Inr (f', r)"
  shows "\<exists>effs st'. initForm (Some r) editTable st = Inr (effs, st')
     \<and> (get_field f ''type'' \<noteq> JStr ''api'' \<longrightarrow>
          (\<forall>k \<in> set [''host'', ''port'', ''username'', ''password'', ''database'',
                       ''extraJdbc'', ''dbSchema'', ''filename'', ''sheets'', ''mode''].
              get_field (form st') k = json_member (get_field f k))
        \<and> get_field (form st') ''timeout'' =
            (if truthy (get_field f ''timeout'') then clone (get_field f ''timeout'')
             else JNum 30)
        \<and> get_field (form st') ''originType'' =
            (if truthy (get_field f ''originType'') then clone (get_field f ''originType'')
             else JStr ''local''))
     \<and> (get_field f ''type'' = JStr ''api'' \<longrightarrow>
          (\<exists>codes s. successStatusCodes_of f = Inr codes
              \<and> (\<forall>v \<in> set codes. v = JNaN \<or> (\<exists>n. v = JNum n \<and> safe_integer n))
              \<and> join_elems (clone_elems codes) = Some s
              \<and> get_field (form st') ''successStatusCodes'' = JStr s)
        \<and> get_field (form st') ''endpoint'' = json_member (get_field f ''endpoint'')
        \<and> get_field (form st') ''method'' =
            (if truthy (get_field f ''method'') then clone (get_field f ''method'')
             else JStr ''POST'')
        \<and> get_field (form st') ''requestBody'' =
            (if truthy (get_field f ''requestBody'') then clone (get_field f ''requestBody'')
             else JStr '''')
        \<and> get_field (form st') ''timeout'' =
            (if truthy (get_field f ''timeout'') then clone (get_field f ''timeout'')
             else JNum 30)
        \<and> get_field (form st') ''originType'' = JStr ''api''
        \<and> get_field (form st') ''headerKey'' =
            (if truthy (get_field f ''headerKey'') \<and> truthy (get_field f ''headerValue'')
             then clone (get_field f ''headerKey'') else get_field (form st) ''headerKey'')
        \<and> get_field (form st') ''headerValue'' =
            (if truthy (get_field f ''headerKey'') \<and> truthy (get_field f ''headerValue'')
             then clone (get_field f ''headerValue'') else get_field (form st) ''headerValue'')
        \<and> get_field (form st') ''cookieKey'' =
            (if truthy (get_field f ''cookieKey'') \<and> truthy (get_field f ''cookieValue'')
             then clone (get_field f ''cookieKey'') else get_field (form st) ''cookieKey'')
        \<and> get_field (form st') ''cookieValue'' =
            (if truthy (get_field f ''cookieKey'') \<and> truthy (get_field f ''cookieValue'')
             then clone (get_field f ''cookieValue'') else get_field (form st) ''cookieValue'')
        \<and> get_field (form st') ''paramKey'' =
            (if truthy (get_field f ''paramKey'') \<and> truthy (get_field f ''paramValue'')
             then clone (get_field f ''paramKey'') else get_field (form st) ''paramKey'')
        \<and> get_field (form st') ''paramValue'' =
            (if truthy (get_field f ''paramKey'') \<and> truthy (get_field f ''paramValue'')
             then clone (get_field f ''paramValue'') else get_field (form st) ''paramValue''))"
proof (cases "get_field f ''type'' = JStr ''api''")
  case False
  let ?g = "set_field ''configuration'' (get_field r ''configuration'')
             (set_field ''type'' (get_field r ''type'')
             (set_field ''description'' (get_field r ''description'')
             (set_field ''name'' (get_field r ''name'')
             (set_field ''id'' (get_field r ''id'') (form st)))))"
  from assms(2) False
  have r: "r = delete_fields relational_deleted (clone_members (built_relational f))"
    by (auto simp: buildConf_relational)
  from load_configuration_relational [OF assms(1) False, of ?g] obtain g' where
    l: "load_configuration r ?g = Inr (g', [])" and
    m: "\<forall>k \<in> set [''host'', ''port'', ''username'', ''password'', ''database'',
                       ''extraJdbc'', ''dbSchema'', ''filename'', ''sheets'', ''mode''].
              get_field g' k = json_member (get_field f k)" and
    t: "get_field g' ''timeout'' =
            (if truthy (get_field f ''timeout'') then clone (get_field f ''timeout'')
             else JNum 30)" and
    o: "get_field g' ''originType'' =
            (if truthy (get_field f ''originType'') then clone (get_field f ''originType'')
             else JStr ''local'')"
    unfolding r by blast
  from initForm_record [OF l, of editTable] obtain effs st' where
    i: "initForm (Some r) editTable st = Inr (effs, st')" and g: "form st' = g'" by blast
  from i m t o False show ?thesis unfolding g [symmetric] by blast
next
  case True
  let ?g = "set_field ''configuration'' (get_field r ''configuration'')
             (set_field ''type'' (get_field r ''type'')
             (set_field ''description'' (get_field r ''description'')
             (set_field ''name'' (get_field r ''name'')
             (set_field ''id'' (get_field r ''id'') (form st)))))"
  from assms(2) True obtain codes where c: "successStatusCodes_of f = Inr codes"
    and r: "r = delete_fields api_deleted (clone_members (built_api f codes))"
    by (auto simp: buildConf_api split: sum.splits)
  have fr: "get_field ?g ''headerKey'' = get_field (form st) ''headerKey''"
    "get_field ?g ''headerValue'' = get_field (form st) ''headerValue''"
    "get_field ?g ''cookieKey'' = get_field (form st) ''cookieKey''"
    "get_field ?g ''cookieValue'' = get_field (form st) ''cookieValue''"
    "get_field ?g ''paramKey'' = get_field (form st) ''paramKey''"
    "get_field ?g ''paramValue'' = get_field (form st) ''paramValue''"
    by (simp_all add: get_field_set_field)
  from load_configuration_api [OF True c, of ?g, unfolded fr] obtain g' s where
    l: "load_configuration r ?g = Inr (g', [])" and
    j: "join_elems (clone_elems codes) = Some s" and
    s: "get_field g' ''successStatusCodes'' = JStr s" and
    e: "get_field g' ''endpoint'' = json_member (get_field f ''endpoint'')" and
    m: "get_field g' ''method'' =
            (if truthy (get_field f ''method'') then clone (get_field f ''method'')
             else JStr ''POST'')" and
    b: "get_field g' ''requestBody'' =
            (if truthy (get_field f ''requestBody'') then clone (get_field f ''requestBody'')
             else JStr '''')" and
    t: "get_field g' ''timeout'' =
            (if truthy (get_field f ''timeout'') then clone (get_field f ''timeout'')
             else JNum 30)" and
    o: "get_field g' ''originType'' = JStr ''api''" and
    k: "get_field g' ''headerKey'' =
            (if truthy (get_field f ''headerKey'') \<and> truthy (get_field f ''headerValue'')
             then clone (get_field f ''headerKey'') else get_field (form st) ''headerKey'')"
       "get_field g' ''headerValue'' =
            (if truthy (get_field f ''headerKey'') \<and> truthy (get_field f ''headerValue'')
             then clone (get_field f ''headerValue'') else get_field (form st) ''headerValue'')"
       "get_field g' ''cookieKey'' =
            (if truthy (get_field f ''cookieKey'') \<and> truthy (get_field f ''cookieValue'')
             then clone (get_field f ''cookieKey'') else get_field (form st) ''cookieKey'')"
       "get_field g' ''cookieValue'' =
            (if truthy (get_field f ''cookieKey'') \<and> truthy (get_field f ''cookieValue'')
             then clone (get_field f ''cookieValue'') else get_field (form st) ''cookieValue'')"
       "get_field g' ''paramKey'' =
            (if truthy (get_field f ''paramKey'') \<and> truthy (get_field f ''paramValue'')
             then clone (get_field f ''paramKey'') else get_field (form st) ''paramKey'')"
       "get_field g' ''paramValue'' =
            (if truthy (get_field f ''paramKey'') \<and> truthy (get_field f ''paramValue'')
             then clone (get_field f ''paramValue'') else get_field (form st) ''paramValue'')"
    unfolding r by blast
  from initForm_record [OF l, of editTable] obtain effs st' where
    i: "initForm (Some r) editTable st = Inr (effs, st')" and g: "form st' = g'" by blast
  have codes: "\<exists>codes s. successStatusCodes_of f = Inr codes
              \<and> (\<forall>v \<in> set codes. v = JNaN \<or> (\<exists>n. v = JNum n \<and> safe_integer n))
              \<and> join_elems (clone_elems codes) = Some s
              \<and> get_field (form st') ''successStatusCodes'' = JStr s"
    using c successStatusCodes_numbers [OF c] j s g by blast
  from i codes e m b t o k True show ?thesis unfolding g [symmetric] by blast
qed


theorem load_after_build_witness:
  "distinct (map fst ex_codes)
   \<and> get_field ex_codes ''type'' = JStr ''api''
   \<and> get_field ex_codes ''successStatusCodes'' = JStr ''200, 201''
   \<and> buildConf ex_codes =
       Inr (built_api ex_codes [JNum 200, JNum 201],
            delete_fields api_deleted (clone_members (built_api ex_codes [JNum 200, JNum 201])))
   \<and> (\<exists>effs st'.
         initForm (Some (delete_fields api_deleted
                           (clone_members (built_api ex_codes [JNum 200, JNum 201]))))
           False ex_relational = Inr (effs, st')
         \<and> get_field (form st') ''successStatusCodes'' = JStr ''200,201''
         \<and> get_field (form st') ''endpoint'' = JStr ''https://example.org/report.xlsx''
         \<and> get_field (form st') ''headerKey'' = JStr ''Authorization''
         \<and> get_field (form st') ''headerValue'' = JStr ''s3cret''
         \<and> get_field (form st') ''cookieKey'' = JStr '''')
   \<and> distinct (map fst ex_mysql)
   \<and> get_field ex_mysql ''type'' \<noteq> JStr ''api''
   \<and> buildConf ex_mysql =
       Inr (built_relational ex_mysql,
            delete_fields relational_deleted (clone_members (built_relational ex_mysql)))
   \<and> (\<exists>effs st'.
         initForm (Some (delete_fields relational_deleted
                           (clone_members (built_relational ex_mysql))))
           False ex_api_state = Inr (effs, st')
         \<and> get_field (form st') ''host'' = JStr ''db1''
         \<and> get_field (form st') ''password'' = JStr ''pw''
         \<and> get_field (form st') ''timeout'' = JNum 30
         \<and> get_field (form st') ''originType'' = JStr ''local'')"
proof -
  let ?R = "delete_fields api_deleted (clone_members (built_api ex_codes [JNum 200, JNum 201]))"
  let ?S = "delete_fields relational_deleted (clone_members (built_relational ex_mysql))"
  have d: "distinct (map fst ex_codes)" "distinct (map fst ex_mysql)"
    by (simp_all add: ex_codes_def ex_api_def ex_mysql_def alist_eval)
  have v: "get_field ex_codes ''type'' = JStr ''api''"
    "get_field ex_codes ''successStatusCodes'' = JStr ''200, 201''"
    "get_field ex_codes ''endpoint'' = JStr ''https://example.org/report.xlsx''"
    "get_field ex_codes ''headerKey'' = JStr ''Authorization''"
    "get_field ex_codes ''headerValue'' = JStr ''s3cret''"
    "get_field ex_codes ''cookieKey'' = JStr ''''"
    "get_field (form ex_relational) ''cookieKey'' = JStr ''''"
    by (simp_all add: ex_codes_def ex_api_def ex_relational_def init_state_def alist_eval)
  have w: "get_field ex_mysql ''type'' = JStr ''mysql''"
    "get_field ex_mysql ''host'' = JStr ''db1''"
    "get_field ex_mysql ''password'' = JStr ''pw''"
    "get_field ex_mysql ''timeout'' = JNum 30"
    "get_field ex_mysql ''originType'' = JStr ''local''"
    by (simp_all add: ex_mysql_def alist_eval)
  have c: "successStatusCodes_of ex_codes = Inr [JNum 200, JNum 201]"
    by (simp add: successStatusCodes_of_def v text_eval)
  have j: "show_int 200 @ CHR '','' # show_int 201 = ''200,201''"
    by (simp add: text_eval)
  have a: "buildConf ex_codes = Inr (built_api ex_codes [JNum 200, JNum 201], ?R)"
    using v c by (simp add: buildConf_api)
  have m: "buildConf ex_mysql = Inr (built_relational ex_mysql, ?S)"
    using w by (simp add: buildConf_relational)
  have 1: "\<exists>effs st'. initForm (Some ?R) False ex_relational = Inr (effs, st')
         \<and> get_field (form st') ''successStatusCodes'' = JStr ''200,201''
         \<and> get_field (form st') ''endpoint'' = JStr ''https://example.org/report.xlsx''
         \<and> get_field (form st') ''headerKey'' = JStr ''Authorization''
         \<and> get_field (form st') ''headerValue'' = JStr ''s3cret''
         \<and> get_field (form st') ''cookieKey'' = JStr ''''"
    using load_after_build [OF d(1) a, of False ex_relational]
    by (auto simp: v c j json_member_def safe_integer_def)
  have 2: "\<exists>effs st'. initForm (Some ?S) False ex_api_state = Inr (effs, st')
         \<and> get_field (form st') ''host'' = JStr ''db1''
         \<and> get_field (form st') ''password'' = JStr ''pw''
         \<and> get_field (form st') ''timeout'' = JNum 30
         \<and> get_field (form st') ''originType'' = JStr ''local''"
    using load_after_build [OF d(2) m, of False ex_api_state]
    by (auto simp: w json_member_def)
  from d v a 1 w m 2 show ?thesis by simp
qed

end
